theory Spec2Isabelle
  imports Main "HOL-Library.Mapping"
begin

section \<open>JavaScript values and the runtime they live in\<close>

text \<open>
  Request bodies, token payloads and the persisted document are all results of
  \<^verbatim>\<open>JSON.parse\<close>; the handlers read them duck-typed. A value is one of the JSON
  shapes, plus \<^verbatim>\<open>undefined\<close> for what a missing property reads as. Numbers are
  integers (legacy restaurant ids, epoch seconds); objects keep their keys in
  insertion order.
\<close>

datatype json =
    JUndefined
  | JNull
  | JBool bool
  | JNum int
  | JStr string
  | JArr "json list"
  | JObj "(string \<times> json) list"

text \<open>Exceptions are values. \<open>Error\<close> carries the message given to \<^verbatim>\<open>new Error(...)\<close>;
  the other two are thrown by the engine.\<close>

datatype js_error = TypeError | SyntaxError | Error string

text \<open>What the engine and the external libraries compute; the handlers only call them.
  \<open>None\<close> is a throw (or a rejected promise).\<close>

record platform =
  atob :: "string \<Rightarrow> string option"
  json_parse :: "string \<Rightarrow> json option"
  hmac_sha256 :: "string \<Rightarrow> (string \<Rightarrow> string) option"
  jwt_sign :: "json \<Rightarrow> string \<Rightarrow> string option"
  jwt_decode :: "string \<Rightarrow> json option"
  shortest_digits :: "int \<Rightarrow> string"
  to_number :: "json \<Rightarrow> int option"
  date_iso :: "int \<Rightarrow> string"
  engine_message :: "js_error \<Rightarrow> string"

definition error_message :: "platform \<Rightarrow> js_error \<Rightarrow> string" where
  "error_message P e = (case e of Error m \<Rightarrow> m | _ \<Rightarrow> engine_message P e)"

fun truthy :: "json \<Rightarrow> bool" where
  "truthy JUndefined = False"
| "truthy JNull = False"
| "truthy (JBool b) = b"
| "truthy (JNum n) = (n \<noteq> 0)"
| "truthy (JStr s) = (s \<noteq> [])"
| "truthy (JArr _) = True"
| "truthy (JObj _) = True"

text \<open>\<^verbatim>\<open>v.k\<close> for the fixed keys the handlers read (none of them a built-in property):
  reading from \<^verbatim>\<open>null\<close> or \<^verbatim>\<open>undefined\<close> throws, a primitive or an array has no such
  property.\<close>

fun field :: "json \<Rightarrow> string \<Rightarrow> json" where
  "field (JObj kvs) k = (case map_of kvs k of None \<Rightarrow> JUndefined | Some v \<Rightarrow> v)"
| "field _ k = JUndefined"

fun nullish :: "json \<Rightarrow> bool" where
  "nullish JUndefined = True"
| "nullish JNull = True"
| "nullish _ = False"

definition js_get :: "json \<Rightarrow> string \<Rightarrow> js_error + json" where
  "js_get v k = (if nullish v then Inl TypeError else Inr (field v k))"

text \<open>\<^verbatim>\<open>o.k = v\<close> on an object: an existing key keeps its place, a new one goes last.\<close>

fun obj_set :: "(string \<times> json) list \<Rightarrow> string \<Rightarrow> json \<Rightarrow> (string \<times> json) list" where
  "obj_set [] k v = [(k, v)]"
| "obj_set ((k', v') # kvs) k v =
     (if k' = k then (k, v) # kvs else (k', v') # obj_set kvs k v)"

text \<open>The files are ES modules, so strict mode: assigning a property of a primitive throws.
  A named property put on an array is not part of what \<^verbatim>\<open>JSON.stringify\<close> writes, so the
  array stays as it is.\<close>

fun js_set :: "json \<Rightarrow> string \<Rightarrow> json \<Rightarrow> js_error + json" where
  "js_set (JObj kvs) k v = Inr (JObj (obj_set kvs k v))"
| "js_set (JArr xs) k v = Inr (JArr xs)"
| "js_set _ k v = Inl TypeError"

text \<open>\<^verbatim>\<open>a === b\<close> between values of two different parses: primitives compare by value,
  two arrays or objects are never the same reference.\<close>

fun strict_eq :: "json \<Rightarrow> json \<Rightarrow> bool" where
  "strict_eq (JArr _) _ = False"
| "strict_eq (JObj _) _ = False"
| "strict_eq a b = (a = b)"

fun isArray :: "json \<Rightarrow> bool" where
  "isArray (JArr _) = True"
| "isArray _ = False"

fun digit_char :: "nat \<Rightarrow> char" where
  "digit_char n = (''0123456789abcdef'' ! (n mod 16))"

fun string_of_nat :: "nat \<Rightarrow> string" where
  "string_of_nat n = (if n < 10 then [digit_char n] else string_of_nat (n div 10) @ [digit_char (n mod 10)])"

declare string_of_nat.simps [simp del]

definition string_of_int :: "int \<Rightarrow> string" where
  "string_of_int i = (if i < 0 then CHR ''-'' # string_of_nat (nat (- i)) else string_of_nat (nat i))"

fun js_join :: "string \<Rightarrow> string list \<Rightarrow> string" where
  "js_join sep [] = []"
| "js_join sep [x] = x"
| "js_join sep (x # y # zs) = x @ sep @ js_join sep (y # zs)"

text \<open>\<^verbatim>\<open>String(v)\<close>, which is also what a template literal and \<^verbatim>\<open>Array.prototype.join\<close>
  apply; \<^verbatim>\<open>join\<close> writes \<^verbatim>\<open>null\<close> and \<^verbatim>\<open>undefined\<close> elements as the empty string. An
  integer up to \<open>2\<^sup>5\<^sup>3\<close> in size is written with its decimal digits. Beyond that a number
  \<open>x\<close> of \<open>n\<close> decimal digits is written from the engine's shortest digit string \<open>s\<close> that
  identifies it: below \<open>10\<^sup>2\<^sup>1\<close> as \<open>s\<close> followed by zeros up to \<open>n\<close> digits, and from
  \<open>10\<^sup>2\<^sup>1\<close> on in exponent form, the first digit of \<open>s\<close>, a point and the other digits if
  there are any, then \<^verbatim>\<open>e+\<close> and \<open>n - 1\<close> (\<open>10\<^sup>2\<^sup>1\<close> is written \<^verbatim>\<open>1e+21\<close>).\<close>

definition number_string :: "platform \<Rightarrow> int \<Rightarrow> string" where
  "number_string P x =
     (if - 9007199254740992 \<le> x \<and> x \<le> 9007199254740992 then string_of_int x
      else
        (let sign = (if x < 0 then ''-'' else []);
             s = shortest_digits P (abs x);
             n = length (string_of_nat (nat (abs x)))
         in if n \<le> 21 then sign @ s @ replicate (n - length s) CHR ''0''
            else sign @ take 1 s @ (if length s \<le> 1 then [] else ''.'' @ drop 1 s)
                 @ ''e+'' @ string_of_nat (n - 1)))"

fun js_String :: "platform \<Rightarrow> json \<Rightarrow> string" where
  "js_String P JUndefined = ''undefined''"
| "js_String P JNull = ''null''"
| "js_String P (JBool b) = (if b then ''true'' else ''false'')"
| "js_String P (JNum n) = number_string P n"
| "js_String P (JStr s) = s"
| "js_String P (JArr xs) =
     js_join '','' (map (\<lambda>x. if x = JNull \<or> x = JUndefined then [] else js_String P x) xs)"
| "js_String P (JObj _) = ''[object Object]''"

definition array_join :: "platform \<Rightarrow> string \<Rightarrow> json list \<Rightarrow> string" where
  "array_join P sep xs =
     js_join sep (map (\<lambda>x. if x = JNull \<or> x = JUndefined then [] else js_String P x) xs)"

section \<open>Requests, responses, configuration\<close>

record request =
  authorization :: "string option"
  cf_connecting_ip :: "string option"
  req_json :: "json option"

record env =
  JWT_SECRET :: "string option"
  ADMIN_PASSWORD :: "string option"
  ALLOWED_ORIGIN :: "string option"

record response =
  status :: nat
  headers :: "(string \<times> json) list"
  body :: "json option"

definition env_value :: "string option \<Rightarrow> json" where
  "env_value v = (case v of None \<Rightarrow> JUndefined | Some s \<Rightarrow> JStr s)"

definition env_string :: "string option \<Rightarrow> string" where
  "env_string v = (case v of None \<Rightarrow> [] | Some s \<Rightarrow> s)"

definition getCorsHeaders :: "env \<Rightarrow> (string \<times> json) list" where
  "getCorsHeaders e =
     (let allowedOrigin = (if truthy (env_value (ALLOWED_ORIGIN e)) then env_value (ALLOWED_ORIGIN e) else JStr ''*'')
      in [(''Access-Control-Allow-Origin'', allowedOrigin),
          (''Access-Control-Allow-Methods'', JStr ''GET, POST, PUT, DELETE, OPTIONS''),
          (''Access-Control-Allow-Headers'', JStr ''Content-Type, Authorization'')])"

definition errorResponse :: "string \<Rightarrow> nat \<Rightarrow> env \<Rightarrow> response" where
  "errorResponse message st e =
     \<lparr>status = st,
      headers = (''Content-Type'', JStr ''application/json'') # getCorsHeaders e,
      body = Some (JObj [(''error'', JStr message)])\<rparr>"

definition successResponse :: "json \<Rightarrow> env \<Rightarrow> response" where
  "successResponse data e =
     \<lparr>status = 200,
      headers = (''Content-Type'', JStr ''application/json'') # getCorsHeaders e,
      body = Some data\<rparr>"

section \<open>Rate limiter\<close>

record rl_entry =
  count :: int
  resetAt :: int

record rl_result =
  allowed :: bool
  remaining :: int
  result_resetAt :: int

type_synonym rate_store = "(string, rl_entry) mapping"

definition client_key :: "request \<Rightarrow> string" where
  "client_key r = (case cf_connecting_ip r of None \<Rightarrow> ''unknown'' | Some ip \<Rightarrow> if ip = [] then ''unknown'' else ip)"

definition purge_expired :: "int \<Rightarrow> rate_store \<Rightarrow> rate_store" where
  "purge_expired now s =
     (if Mapping.size s > 10000 then Mapping.filter (\<lambda>k v. \<not> now > resetAt v) s else s)"

text \<open>\<open>now\<close> is the value of \<^verbatim>\<open>Date.now()\<close>; the module-level map is passed in and returned.
  The stored entry is a shared object, so \<^verbatim>\<open>entry.count++\<close> changes the map.\<close>

definition checkRateLimit :: "request \<Rightarrow> int \<Rightarrow> int \<Rightarrow> int \<Rightarrow> rate_store \<Rightarrow> rl_result \<times> rate_store" where
  "checkRateLimit r maxRequests windowMs now rateLimitStore =
     (let key = client_key r;
          s1 = purge_expired now rateLimitStore;
          fresh = \<lparr>count = 1, resetAt = now + windowMs\<rparr>;
          opened = (\<lparr>allowed = True, remaining = maxRequests - 1, result_resetAt = resetAt fresh\<rparr>,
                    Mapping.update key fresh s1)
      in case Mapping.lookup s1 key of
           None \<Rightarrow> opened
         | Some entry \<Rightarrow>
             if now > resetAt entry then opened
             else
               let entry' = entry\<lparr>count := count entry + 1\<rparr>;
                   s2 = Mapping.update key entry' s1
               in if count entry' > maxRequests
                  then (\<lparr>allowed = False, remaining = 0, result_resetAt = resetAt entry'\<rparr>, s2)
                  else (\<lparr>allowed = True, remaining = maxRequests - count entry',
                         result_resetAt = resetAt entry'\<rparr>, s2))"

section \<open>Authentication endpoint\<close>

text \<open>What one run of a handler reads from its surroundings: the clock at each
  \<^verbatim>\<open>Date.now()\<close> (in \<^verbatim>\<open>verify\<close>, in the limiter, for the \<^verbatim>\<open>Retry-After\<close> header, for
  \<^verbatim>\<open>iat\<close>, for \<^verbatim>\<open>exp\<close>), the value of \<^verbatim>\<open>crypto.randomUUID()\<close>, and the successive values
  of \<^verbatim>\<open>(Math.random() * 16) | 0\<close>.\<close>

record reads =
  t_verify :: int
  t_check :: int
  t_retry :: int
  t_iat :: int
  t_exp :: int
  session_uuid :: string
  randoms :: "nat \<Rightarrow> nat"

definition ceil_div_1000 :: "int \<Rightarrow> int" where
  "ceil_div_1000 x = - ((- x) div 1000)"

definition auth_json_response :: "nat \<Rightarrow> json \<Rightarrow> env \<Rightarrow> response" where
  "auth_json_response st b e =
     \<lparr>status = st,
      headers = (''Content-Type'', JStr ''application/json'') # getCorsHeaders e,
      body = Some b\<rparr>"

definition auth_payload :: "reads \<Rightarrow> json" where
  "auth_payload rd =
     JObj [(''sessionId'', JStr (session_uuid rd)),
           (''iat'', JNum (t_iat rd div 1000)),
           (''exp'', JNum (t_exp rd div 1000 + 60 * 60))]"

definition auth_invalid_request :: "env \<Rightarrow> response" where
  "auth_invalid_request e =
     auth_json_response 400
       (JObj [(''authenticated'', JBool False), (''error'', JStr ''Invalid request'')]) e"

definition auth_onRequestPost ::
  "platform \<Rightarrow> env \<Rightarrow> reads \<Rightarrow> request \<Rightarrow> rate_store \<Rightarrow> response \<times> rate_store" where
  "auth_onRequestPost P e rd r rateLimitStore =
     (case checkRateLimit r 5 60000 (t_check rd) rateLimitStore of (rateCheck, s') \<Rightarrow>
        if \<not> allowed rateCheck then
          (\<lparr>status = 429,
            headers = [(''Content-Type'', JStr ''application/json''),
                       (''Retry-After'', JNum (ceil_div_1000 (result_resetAt rateCheck - t_retry rd)))]
                      @ getCorsHeaders e,
            body = Some (JObj [(''authenticated'', JBool False),
                               (''error'', JStr ''Too many authentication attempts. Please try again later.''),
                               (''retryAfter'', JStr (date_iso P (result_resetAt rateCheck)))])\<rparr>, s')
        else
          (case req_json r of
             None \<Rightarrow> (auth_invalid_request e, s')
           | Some b \<Rightarrow>
               (case js_get b ''password'' of
                  Inl _ \<Rightarrow> (auth_invalid_request e, s')
                | Inr password \<Rightarrow>
                    if \<not> truthy (env_value (JWT_SECRET e)) then
                      (auth_json_response 500
                         (JObj [(''authenticated'', JBool False),
                                (''error'', JStr ''Server configuration error: JWT_SECRET not set'')]) e, s')
                    else if strict_eq password (env_value (ADMIN_PASSWORD e)) then
                      (case jwt_sign P (auth_payload rd) (env_string (JWT_SECRET e)) of
                         None \<Rightarrow> (auth_invalid_request e, s')
                       | Some token \<Rightarrow>
                           (successResponse
                              (JObj [(''authenticated'', JBool True), (''token'', JStr token)]) e, s'))
                    else
                      (auth_json_response 401
                         (JObj [(''authenticated'', JBool False), (''error'', JStr ''Invalid password'')]) e,
                       s'))))"

text \<open>Consecutive calls, as a client (or the test suite) makes them: each call sees the
  map the previous one left.\<close>

fun checkRateLimit_calls :: "int \<Rightarrow> int \<Rightarrow> (int \<times> request) list \<Rightarrow> rate_store \<Rightarrow> rl_result list \<times> rate_store" where
  "checkRateLimit_calls maxRequests windowMs [] s = ([], s)"
| "checkRateLimit_calls maxRequests windowMs ((now, r) # cs) s =
     (case checkRateLimit r maxRequests windowMs now s of (res, s') \<Rightarrow>
        (case checkRateLimit_calls maxRequests windowMs cs s' of (rs, s'') \<Rightarrow> (res # rs, s'')))"

fun auth_calls :: "platform \<Rightarrow> env \<Rightarrow> (reads \<times> request) list \<Rightarrow> rate_store \<Rightarrow> response list \<times> rate_store" where
  "auth_calls P e [] s = ([], s)"
| "auth_calls P e ((rd, r) # cs) s =
     (case auth_onRequestPost P e rd r s of (resp, s') \<Rightarrow>
        (case auth_calls P e cs s' of (rs, s'') \<Rightarrow> (resp # rs, s'')))"


section \<open>Token verification\<close>

text \<open>\<^verbatim>\<open>s.split(c)\<close>: empty segments are kept, and the empty string gives one empty segment.\<close>

fun split_on :: "char \<Rightarrow> string \<Rightarrow> string list" where
  "split_on c [] = [[]]"
| "split_on c (x # xs) =
     (if x = c then [] # split_on c xs
      else (case split_on c xs of [] \<Rightarrow> [[x]] | p # ps \<Rightarrow> (x # p) # ps))"

text \<open>\<^verbatim>\<open>while (str.length % 4) { str += '=' }\<close>\<close>

function pad4 :: "string \<Rightarrow> string" where
  "pad4 str = (if length str mod 4 \<noteq> 0 then pad4 (str @ ''='') else str)"
  by pat_completeness blast
termination
proof (relation "measure (\<lambda>str. (4 - length str mod 4) mod 4)")
  show "wf (measure (\<lambda>str::string. (4 - length str mod 4) mod 4))"
    by (rule wf_measure)
next
  fix str :: string
  assume more: "length str mod 4 \<noteq> 0"
  have step: "Suc (length str) mod 4 = Suc (length str mod 4) mod 4"
    by (simp add: mod_Suc_eq)
  have "length str mod 4 < 4" by simp
  with more consider "length str mod 4 = 1" | "length str mod 4 = 2" | "length str mod 4 = 3"
    by linarith
  then have "(4 - Suc (length str) mod 4) mod 4 < (4 - length str mod 4) mod 4"
    by cases (simp_all add: step)
  then show "(str @ ''='', str) \<in> measure (\<lambda>str. (4 - length str mod 4) mod 4)"
    by simp
qed

declare pad4.simps [simp del]

definition replace_char :: "char \<Rightarrow> char \<Rightarrow> string \<Rightarrow> string" where
  "replace_char a b str = map (\<lambda>c. if c = a then b else c) str"

definition base64UrlDecode :: "platform \<Rightarrow> string \<Rightarrow> string option" where
  "base64UrlDecode P str = atob P (pad4 (replace_char CHR ''_'' CHR ''/'' (replace_char CHR ''-'' CHR ''+'' str)))"

text \<open>\<^verbatim>\<open>v < n\<close> for a number \<open>n\<close>: a number compares as it is, a boolean and \<^verbatim>\<open>null\<close> as
  1, 0 and 0, \<^verbatim>\<open>undefined\<close> is NaN and compares false; a string, array or object goes
  through the engine's conversion to a number (\<open>None\<close> is NaN).\<close>

fun js_less_number :: "platform \<Rightarrow> json \<Rightarrow> int \<Rightarrow> bool" where
  "js_less_number P (JNum e) n = (e < n)"
| "js_less_number P (JBool b) n = ((if b then 1 else 0) < n)"
| "js_less_number P JNull n = (0 < n)"
| "js_less_number P JUndefined n = False"
| "js_less_number P v n = (case to_number P v of None \<Rightarrow> False | Some e \<Rightarrow> e < n)"

text \<open>The body of the \<^verbatim>\<open>try\<close> block of \<^verbatim>\<open>verify\<close>: \<open>Inl\<close> is a throw. \<open>now\<close> is the value of
  \<^verbatim>\<open>Date.now()\<close>. \<^verbatim>\<open>crypto.subtle.verify\<close> recomputes the MAC of the message under the
  imported key and compares it with the signature bytes.\<close>

definition verify_try :: "platform \<Rightarrow> int \<Rightarrow> string \<Rightarrow> string \<Rightarrow> js_error + bool" where
  "verify_try P now token secret =
     (let parts = split_on CHR ''.'' token in
      if length parts \<noteq> 3 then Inr False
      else
        (case parts of
           [encodedHeader, encodedPayload, encodedSignature] \<Rightarrow>
             (let message = encodedHeader @ ''.'' @ encodedPayload in
              case hmac_sha256 P secret of
                None \<Rightarrow> Inl (Error ''importKey'')
              | Some mac \<Rightarrow>
                  (case base64UrlDecode P encodedSignature of
                     None \<Rightarrow> Inl (Error ''atob'')
                   | Some signatureBytes \<Rightarrow>
                       let isValid = (mac message = signatureBytes) in
                       if \<not> isValid then Inr False
                       else
                         (case base64UrlDecode P encodedPayload of
                            None \<Rightarrow> Inl (Error ''atob'')
                          | Some text \<Rightarrow>
                              (case json_parse P text of
                                 None \<Rightarrow> Inl SyntaxError
                               | Some payload \<Rightarrow>
                                   (case js_get payload ''exp'' of
                                      Inl err \<Rightarrow> Inl err
                                    | Inr exp \<Rightarrow>
                                        if truthy exp \<and> js_less_number P exp (now div 1000)
                                        then Inr False
                                        else Inr True)))))
         | _ \<Rightarrow> Inr False))"

definition verify :: "platform \<Rightarrow> int \<Rightarrow> string \<Rightarrow> string \<Rightarrow> bool" where
  "verify P now token secret =
     (case verify_try P now token secret of Inl error \<Rightarrow> False | Inr b \<Rightarrow> b)"

text \<open>An unset \<^verbatim>\<open>JWT_SECRET\<close> reaches \<^verbatim>\<open>TextEncoder.encode\<close> as \<^verbatim>\<open>undefined\<close>, which encodes
  the empty string.\<close>

definition verifyAuth :: "platform \<Rightarrow> int \<Rightarrow> request \<Rightarrow> env \<Rightarrow> bool" where
  "verifyAuth P now r e =
     (case authorization r of
        None \<Rightarrow> False
      | Some authHeader \<Rightarrow>
          if authHeader = [] \<or> take 7 authHeader \<noteq> ''Bearer '' then False
          else verify P now (drop 7 authHeader) (env_string (JWT_SECRET e)))"

section \<open>Validation\<close>

definition validServiceTypes :: "string list" where
  "validServiceTypes = [''takeout'', ''delivery'', ''dine-in'', ''at-home'']"

record service_validation =
  sv_valid :: bool
  invalidTypes :: "json list"

definition validateServiceTypes :: "json list \<Rightarrow> service_validation" where
  "validateServiceTypes serviceTypes =
     (let invalid = filter (\<lambda>st. st \<notin> set (map JStr validServiceTypes)) serviceTypes
      in \<lparr>sv_valid = (length invalid = 0), invalidTypes = invalid\<rparr>)"

text \<open>\<^verbatim>\<open>/^[a-z0-9-]+$/.test(profileId)\<close>; \<^verbatim>\<open>test\<close> converts its argument to a string.\<close>

definition validateProfileId :: "platform \<Rightarrow> json \<Rightarrow> bool" where
  "validateProfileId P profileId =
     (let s = js_String P profileId
      in s \<noteq> [] \<and> list_all (\<lambda>c. c \<in> set ''abcdefghijklmnopqrstuvwxyz0123456789-'') s)"

text \<open>\<^verbatim>\<open>trim\<close> removes white space and line terminators at both ends. A character here
  is a code unit below 256; among those the white space is TAB, VT, FF, SPACE and the
  NO-BREAK SPACE U+00A0, and the line terminators are LF and CR.\<close>

definition is_space :: "char \<Rightarrow> bool" where
  "is_space c = (c \<in> set [CHR 0x20, CHR 0x09, CHR 0x0A, CHR 0x0B, CHR 0x0C, CHR 0x0D, CHR 0xA0])"

definition js_trim :: "string \<Rightarrow> string" where
  "js_trim s = rev (dropWhile is_space (rev (dropWhile is_space s)))"

record validation =
  valid :: bool
  errors :: "string list"

text \<open>\<^verbatim>\<open>!restaurant.name || restaurant.name.trim() === ''\<close>: a truthy name that is not a
  string has no \<^verbatim>\<open>trim\<close>, and calling it throws.\<close>

definition name_missing :: "json \<Rightarrow> js_error + bool" where
  "name_missing name =
     (if \<not> truthy name then Inr True
      else (case name of JStr s \<Rightarrow> Inr (js_trim s = []) | _ \<Rightarrow> Inl TypeError))"

fun array_length :: "json \<Rightarrow> nat" where
  "array_length (JArr xs) = length xs"
| "array_length _ = 0"

fun array_items :: "json \<Rightarrow> json list" where
  "array_items (JArr xs) = xs"
| "array_items _ = []"

text \<open>Each \<^verbatim>\<open>if (c) { errors.push(m) }\<close> appends \<open>m\<close> to the list so far when \<open>c\<close> holds.\<close>

definition validateRestaurantData :: "platform \<Rightarrow> json \<Rightarrow> js_error + validation" where
  "validateRestaurantData P restaurant =
     (case js_get restaurant ''name'' of
        Inl err \<Rightarrow> Inl err
      | Inr name \<Rightarrow>
          (case name_missing name of
             Inl err \<Rightarrow> Inl err
           | Inr no_name \<Rightarrow>
               (let foodTypes = field restaurant ''foodTypes'';
                    serviceTypes = field restaurant ''serviceTypes'';
                    profiles = field restaurant ''profiles'';
                    dietaryRestrictions = field restaurant ''dietaryRestrictions'';
                    errors0 = [];
                    errors1 = errors0 @ (if no_name then [''Restaurant name is required''] else []);
                    errors2 = errors1 @ (if \<not> isArray foodTypes \<or> array_length foodTypes = 0
                                         then [''At least one food type is required''] else []);
                    errors3 = errors2 @ (if \<not> isArray serviceTypes \<or> array_length serviceTypes = 0
                                         then [''At least one service type is required''] else []);
                    errors4 = errors3 @ (if isArray serviceTypes
                                         then (let serviceValidation = validateServiceTypes (array_items serviceTypes)
                                               in if \<not> sv_valid serviceValidation
                                                  then [''Invalid service types: ''
                                                         @ array_join P '', '' (invalidTypes serviceValidation)]
                                                  else [])
                                         else []);
                    errors5 = errors4 @ (if truthy profiles \<and> \<not> isArray profiles
                                         then [''Profiles must be an array''] else []);
                    errors6 = errors5 @ (if truthy dietaryRestrictions \<and> \<not> isArray dietaryRestrictions
                                         then [''Dietary restrictions must be an array''] else [])
                in Inr \<lparr>valid = (length errors6 = 0), errors = errors6\<rparr>)))"

section \<open>Identifiers\<close>



section \<open>The stored document\<close>

text \<open>
  \<^verbatim>\<open>fetchFromGitHub\<close> and \<^verbatim>\<open>updateGitHub\<close> are two HTTP calls against one file of a
  repository. The state below is GitHub's side of them: the file's content as
  \<^verbatim>\<open>JSON.parse\<close> reads it (\<open>None\<close> when it does not parse), its blob SHA, the status a
  read is answered with, the status and text a write is answered with, and the calls
  received so far. A write with a stale SHA is answered 409. The \<^verbatim>\<open>GITHUB_*\<close> settings
  only select the file and are left out.
\<close>

datatype gh_call = Fetch | Put json nat string

record github =
  gh_data :: "json option"
  gh_sha :: nat
  gh_fetch_status :: nat
  gh_put_status :: nat
  gh_put_text :: string
  gh_log :: "gh_call list"

definition response_ok :: "nat \<Rightarrow> bool" where
  "response_ok st = (200 \<le> st \<and> st \<le> 299)"

definition fetchFromGitHub :: "github \<Rightarrow> (js_error + json \<times> nat) \<times> github" where
  "fetchFromGitHub g =
     (let g' = g\<lparr>gh_log := gh_log g @ [Fetch]\<rparr> in
      if \<not> response_ok (gh_fetch_status g)
      then (Inl (Error (''GitHub API error: '' @ string_of_nat (gh_fetch_status g))), g')
      else (case gh_data g of
              None \<Rightarrow> (Inl SyntaxError, g')
            | Some d \<Rightarrow> (Inr (d, gh_sha g), g')))"

definition updateGitHub :: "json \<Rightarrow> nat \<Rightarrow> string \<Rightarrow> github \<Rightarrow> (js_error + unit) \<times> github" where
  "updateGitHub content sha message g =
     (let g' = g\<lparr>gh_log := gh_log g @ [Put content sha message]\<rparr>;
          st = (if response_ok (gh_put_status g) \<and> sha \<noteq> gh_sha g then 409 else gh_put_status g)
      in if \<not> response_ok st
         then (Inl (Error (''GitHub update failed: '' @ string_of_nat st @ '' - '' @ gh_put_text g)), g')
         else (Inr (), g'\<lparr>gh_data := Some content, gh_sha := Suc (gh_sha g)\<rparr>))"

text \<open>
  Every mutating handler has the same middle: fetch the document and its SHA, work on
  the parsed document, then either answer at once or write the changed document with
  the fetched SHA and a commit message. What the handler does to the document is a
  function from the document; \<open>Respond\<close> is an early \<^verbatim>\<open>return\<close>, \<open>Commit\<close> the content,
  message and response of the path that reaches \<^verbatim>\<open>updateGitHub\<close>.
\<close>

datatype outcome = Respond response | Commit json string response

definition fetch_change_update ::
  "(json \<Rightarrow> js_error + outcome) \<Rightarrow> github \<Rightarrow> (js_error + response) \<times> github" where
  "fetch_change_update change g =
     (case fetchFromGitHub g of
        (Inl err, g1) \<Rightarrow> (Inl err, g1)
      | (Inr (data, sha), g1) \<Rightarrow>
          (case change data of
             Inl err \<Rightarrow> (Inl err, g1)
           | Inr (Respond resp) \<Rightarrow> (Inr resp, g1)
           | Inr (Commit data' message resp) \<Rightarrow>
               (case updateGitHub data' sha message g1 of
                  (Inl err, g2) \<Rightarrow> (Inl err, g2)
                | (Inr u, g2) \<Rightarrow> (Inr resp, g2))))"

text \<open>The \<^verbatim>\<open>catch\<close> of a handler: any throw becomes a 500 with the handler's prefix.\<close>

definition catch_500 ::
  "platform \<Rightarrow> env \<Rightarrow> string \<Rightarrow> (js_error + response) \<times> github \<Rightarrow> response \<times> github" where
  "catch_500 P e prefix res =
     (case res of
        (Inl err, g) \<Rightarrow> (errorResponse (prefix @ error_message P err) 500 e, g)
      | (Inr resp, g) \<Rightarrow> (resp, g))"

text \<open>Array methods exist on arrays only; calling one on anything else throws.\<close>

fun as_array :: "json \<Rightarrow> js_error + json list" where
  "as_array (JArr xs) = Inr xs"
| "as_array _ = Inl TypeError"

text \<open>\<^verbatim>\<open>xs.findIndex(f)\<close>: the first index where \<open>f\<close> holds, \<open>None\<close> for \<open>-1\<close>; a throw of
  \<open>f\<close> before that index is the result.\<close>

fun js_findIndex :: "(json \<Rightarrow> js_error + bool) \<Rightarrow> json list \<Rightarrow> js_error + nat option" where
  "js_findIndex f [] = Inr None"
| "js_findIndex f (x # xs) =
     (case f x of
        Inl err \<Rightarrow> Inl err
      | Inr True \<Rightarrow> Inr (Some 0)
      | Inr False \<Rightarrow>
          (case js_findIndex f xs of
             Inl err \<Rightarrow> Inl err
           | Inr None \<Rightarrow> Inr None
           | Inr (Some i) \<Rightarrow> Inr (Some (Suc i))))"

text \<open>\<^verbatim>\<open>xs.splice(i, 1)\<close>\<close>

definition splice1 :: "nat \<Rightarrow> 'a list \<Rightarrow> 'a list" where
  "splice1 i xs = take i xs @ drop (Suc i) xs"

section \<open>Restaurants\<close>




definition update_restaurant :: "platform \<Rightarrow> env \<Rightarrow> json \<Rightarrow> json \<Rightarrow> js_error + outcome" where
  "update_restaurant P e updatedRestaurant data =
     (case js_get data ''restaurants'' of
        Inl err \<Rightarrow> Inl err
      | Inr restaurants0 \<Rightarrow>
          (case as_array restaurants0 of
             Inl err \<Rightarrow> Inl err
           | Inr restaurants \<Rightarrow>
               (case js_findIndex
                       (\<lambda>r. case js_get r ''id'' of
                               Inl err \<Rightarrow> Inl err
                             | Inr rid \<Rightarrow> Inr (strict_eq rid (field updatedRestaurant ''id'')))
                       restaurants of
                  Inl err \<Rightarrow> Inl err
                | Inr None \<Rightarrow> Inr (Respond (errorResponse ''Restaurant not found'' 404 e))
                | Inr (Some index) \<Rightarrow>
                    (case js_set data ''restaurants'' (JArr (restaurants[index := updatedRestaurant])) of
                       Inl err \<Rightarrow> Inl err
                     | Inr data1 \<Rightarrow>
                         Inr (Commit data1
                                (''Update restaurant: '' @ js_String P (field updatedRestaurant ''name''))
                                (successResponse
                                   (JObj [(''success'', JBool True), (''restaurant'', updatedRestaurant)])
                                   e))))))"

definition restaurants_onRequestPut ::
  "platform \<Rightarrow> env \<Rightarrow> reads \<Rightarrow> request \<Rightarrow> github \<Rightarrow> response \<times> github" where
  "restaurants_onRequestPut P e rd r g =
     (if \<not> verifyAuth P (t_verify rd) r e then (errorResponse ''Unauthorized'' 401 e, g)
      else
        catch_500 P e ''Failed to update restaurant: ''
          (case req_json r of
             None \<Rightarrow> (Inl SyntaxError, g)
           | Some updatedRestaurant \<Rightarrow>
               (case validateRestaurantData P updatedRestaurant of
                  Inl err \<Rightarrow> (Inl err, g)
                | Inr validation \<Rightarrow>
                    if \<not> valid validation
                    then (Inr (errorResponse (js_join '', '' (errors validation)) 400 e), g)
                    else if \<not> truthy (field updatedRestaurant ''id'')
                    then (Inr (errorResponse ''Restaurant ID is required for updates'' 400 e), g)
                    else fetch_change_update (update_restaurant P e updatedRestaurant) g)))"

definition delete_restaurant :: "platform \<Rightarrow> env \<Rightarrow> string \<Rightarrow> json \<Rightarrow> js_error + outcome" where
  "delete_restaurant P e restaurantId data =
     (case js_get data ''restaurants'' of
        Inl err \<Rightarrow> Inl err
      | Inr restaurants0 \<Rightarrow>
          (case as_array restaurants0 of
             Inl err \<Rightarrow> Inl err
           | Inr restaurants \<Rightarrow>
               (case js_findIndex
                       (\<lambda>r. case js_get r ''id'' of
                               Inl err \<Rightarrow> Inl err
                             | Inr rid \<Rightarrow> Inr (js_String P rid = js_String P (JStr restaurantId)))
                       restaurants of
                  Inl err \<Rightarrow> Inl err
                | Inr None \<Rightarrow> Inr (Respond (errorResponse ''Restaurant not found'' 404 e))
                | Inr (Some index) \<Rightarrow>
                    (let deletedRestaurant = restaurants ! index in
                     case js_set data ''restaurants'' (JArr (splice1 index restaurants)) of
                       Inl err \<Rightarrow> Inl err
                     | Inr data1 \<Rightarrow>
                         Inr (Commit data1
                                (''Delete restaurant: '' @ js_String P (field deletedRestaurant ''name''))
                                (successResponse
                                   (JObj [(''success'', JBool True), (''deleted'', deletedRestaurant)])
                                   e))))))"

definition restaurants_id_onRequestDelete ::
  "platform \<Rightarrow> env \<Rightarrow> reads \<Rightarrow> request \<Rightarrow> string \<Rightarrow> github \<Rightarrow> response \<times> github" where
  "restaurants_id_onRequestDelete P e rd r params_id g =
     (if \<not> verifyAuth P (t_verify rd) r e then (errorResponse ''Unauthorized'' 401 e, g)
      else
        catch_500 P e ''Failed to delete restaurant: ''
          (fetch_change_update (delete_restaurant P e params_id) g))"

section \<open>Profiles\<close>


text \<open>A text between double quotes.\<close>

definition quoted :: "string \<Rightarrow> string" where
  "quoted s = [CHR 0x22] @ s @ [CHR 0x22]"

definition reservedIds :: "json list" where
  "reservedIds = [JStr ''all'']"

text \<open>\<^verbatim>\<open>data.profiles.find(p => p.id === newProfile.id)\<close> is truthy exactly when some element
  matches: only an object has an \<^verbatim>\<open>id\<close> equal to the (truthy) new id.\<close>

definition add_profile :: "platform \<Rightarrow> env \<Rightarrow> json \<Rightarrow> json \<Rightarrow> js_error + outcome" where
  "add_profile P e newProfile data =
     (case js_get data ''profiles'' of
        Inl err \<Rightarrow> Inl err
      | Inr profiles0 \<Rightarrow>
          (let initial = JArr [JObj [(''id'', JStr ''all''), (''name'', JStr ''All Restaurants'')]] in
           case (if \<not> truthy profiles0 then js_set data ''profiles'' initial else Inr data) of
             Inl err \<Rightarrow> Inl err
           | Inr data1 \<Rightarrow>
               (case as_array (if \<not> truthy profiles0 then initial else profiles0) of
                  Inl err \<Rightarrow> Inl err
                | Inr profiles \<Rightarrow>
                    (case js_findIndex
                            (\<lambda>p. case js_get p ''id'' of
                                    Inl err \<Rightarrow> Inl err
                                  | Inr pid \<Rightarrow> Inr (strict_eq pid (field newProfile ''id'')))
                            profiles of
                       Inl err \<Rightarrow> Inl err
                     | Inr (Some i) \<Rightarrow>
                         Inr (Respond (errorResponse ''Profile with this ID already exists'' 400 e))
                     | Inr None \<Rightarrow>
                         (case js_set data1 ''profiles'' (JArr (profiles @ [newProfile])) of
                            Inl err \<Rightarrow> Inl err
                          | Inr data2 \<Rightarrow>
                              Inr (Commit data2
                                     (''Add profile: '' @ js_String P (field newProfile ''name''))
                                     (successResponse
                                        (JObj [(''success'', JBool True), (''profile'', newProfile)])
                                        e)))))))"

definition profiles_onRequestPost ::
  "platform \<Rightarrow> env \<Rightarrow> reads \<Rightarrow> request \<Rightarrow> github \<Rightarrow> response \<times> github" where
  "profiles_onRequestPost P e rd r g =
     (if \<not> verifyAuth P (t_verify rd) r e then (errorResponse ''Unauthorized'' 401 e, g)
      else
        catch_500 P e ''Failed to add profile: ''
          (case req_json r of
             None \<Rightarrow> (Inl SyntaxError, g)
           | Some newProfile \<Rightarrow>
               (case js_get newProfile ''id'' of
                  Inl err \<Rightarrow> (Inl err, g)
                | Inr new_id \<Rightarrow>
                    if \<not> truthy new_id \<or> \<not> truthy (field newProfile ''name'')
                    then (Inr (errorResponse ''Missing required fields: id and name'' 400 e), g)
                    else if \<not> validateProfileId P new_id
                    then (Inr (errorResponse
                                 ''Profile ID must contain only lowercase letters, numbers, and hyphens''
                                 400 e), g)
                    else if new_id \<in> set reservedIds
                    then (Inr (errorResponse ''Profile ID is reserved and cannot be used'' 400 e), g)
                    else fetch_change_update (add_profile P e newProfile) g)))"

definition update_profile :: "platform \<Rightarrow> env \<Rightarrow> json \<Rightarrow> json \<Rightarrow> js_error + outcome" where
  "update_profile P e updatedProfile data =
     (case js_get data ''profiles'' of
        Inl err \<Rightarrow> Inl err
      | Inr profiles0 \<Rightarrow>
          (case as_array profiles0 of
             Inl err \<Rightarrow> Inl err
           | Inr profiles \<Rightarrow>
               (case js_findIndex
                       (\<lambda>p. case js_get p ''id'' of
                               Inl err \<Rightarrow> Inl err
                             | Inr pid \<Rightarrow> Inr (strict_eq pid (field updatedProfile ''id'')))
                       profiles of
                  Inl err \<Rightarrow> Inl err
                | Inr None \<Rightarrow> Inr (Respond (errorResponse ''Profile not found'' 404 e))
                | Inr (Some index) \<Rightarrow>
                    (case js_set (profiles ! index) ''name'' (field updatedProfile ''name'') of
                       Inl err \<Rightarrow> Inl err
                     | Inr profile1 \<Rightarrow>
                         (case js_set data ''profiles'' (JArr (profiles[index := profile1])) of
                            Inl err \<Rightarrow> Inl err
                          | Inr data1 \<Rightarrow>
                              Inr (Commit data1
                                     (''Update profile: '' @ js_String P (field updatedProfile ''name''))
                                     (successResponse
                                        (JObj [(''success'', JBool True), (''profile'', profile1)])
                                        e)))))))"

definition profiles_onRequestPut ::
  "platform \<Rightarrow> env \<Rightarrow> reads \<Rightarrow> request \<Rightarrow> github \<Rightarrow> response \<times> github" where
  "profiles_onRequestPut P e rd r g =
     (if \<not> verifyAuth P (t_verify rd) r e then (errorResponse ''Unauthorized'' 401 e, g)
      else
        catch_500 P e ''Failed to update profile: ''
          (case req_json r of
             None \<Rightarrow> (Inl SyntaxError, g)
           | Some updatedProfile \<Rightarrow>
               (case js_get updatedProfile ''id'' of
                  Inl err \<Rightarrow> (Inl err, g)
                | Inr upd_id \<Rightarrow>
                    if \<not> truthy upd_id \<or> \<not> truthy (field updatedProfile ''name'')
                    then (Inr (errorResponse ''Missing required fields: id and name'' 400 e), g)
                    else if strict_eq upd_id (JStr ''all'')
                    then (Inr (errorResponse (''Cannot edit the default '' @ quoted ''All Restaurants'' @ '' profile'') 400 e), g)
                    else fetch_change_update (update_profile P e updatedProfile) g)))"

text \<open>The callback of the cascade's \<^verbatim>\<open>forEach\<close>, on one restaurant.\<close>

definition drop_profile_reference :: "string \<Rightarrow> json \<Rightarrow> js_error + json" where
  "drop_profile_reference profileId restaurant =
     (case js_get restaurant ''profiles'' of
        Inl err \<Rightarrow> Inl err
      | Inr profiles \<Rightarrow>
          if truthy profiles \<and> isArray profiles
          then js_set restaurant ''profiles''
                 (JArr (filter (\<lambda>p. \<not> strict_eq p (JStr profileId)) (array_items profiles)))
          else Inr restaurant)"

text \<open>\<^verbatim>\<open>forEach\<close> with a callback that may throw: the first throw ends the loop.\<close>

fun for_each :: "(json \<Rightarrow> js_error + json) \<Rightarrow> json list \<Rightarrow> js_error + json list" where
  "for_each f [] = Inr []"
| "for_each f (x # xs) =
     (case f x of
        Inl err \<Rightarrow> Inl err
      | Inr y \<Rightarrow> (case for_each f xs of Inl err \<Rightarrow> Inl err | Inr ys \<Rightarrow> Inr (y # ys)))"

definition delete_profile :: "platform \<Rightarrow> env \<Rightarrow> string \<Rightarrow> json \<Rightarrow> js_error + outcome" where
  "delete_profile P e profileId data =
     (case js_get data ''profiles'' of
        Inl err \<Rightarrow> Inl err
      | Inr profiles0 \<Rightarrow>
          if \<not> truthy profiles0 then Inr (Respond (errorResponse ''No profiles found'' 404 e))
          else
            (case as_array profiles0 of
               Inl err \<Rightarrow> Inl err
             | Inr profiles \<Rightarrow>
                 (case js_findIndex
                         (\<lambda>p. case js_get p ''id'' of
                                 Inl err \<Rightarrow> Inl err
                               | Inr pid \<Rightarrow> Inr (strict_eq pid (JStr profileId)))
                         profiles of
                    Inl err \<Rightarrow> Inl err
                  | Inr None \<Rightarrow> Inr (Respond (errorResponse ''Profile not found'' 404 e))
                  | Inr (Some index) \<Rightarrow>
                      (let deletedProfile = profiles ! index in
                       case js_set data ''profiles'' (JArr (splice1 index profiles)) of
                         Inl err \<Rightarrow> Inl err
                       | Inr data1 \<Rightarrow>
                           (case (if truthy (field data1 ''restaurants'')
                                  then (case as_array (field data1 ''restaurants'') of
                                          Inl err \<Rightarrow> Inl err
                                        | Inr restaurants \<Rightarrow>
                                            (case for_each (drop_profile_reference profileId) restaurants of
                                               Inl err \<Rightarrow> Inl err
                                             | Inr restaurants1 \<Rightarrow>
                                                 js_set data1 ''restaurants'' (JArr restaurants1)))
                                  else Inr data1) of
                              Inl err \<Rightarrow> Inl err
                            | Inr data2 \<Rightarrow>
                                Inr (Commit data2
                                       (''Delete profile: '' @ js_String P (field deletedProfile ''name''))
                                       (successResponse
                                          (JObj [(''success'', JBool True), (''deleted'', deletedProfile)])
                                          e)))))))"

definition profiles_id_onRequestDelete ::
  "platform \<Rightarrow> env \<Rightarrow> reads \<Rightarrow> request \<Rightarrow> string \<Rightarrow> github \<Rightarrow> response \<times> github" where
  "profiles_id_onRequestDelete P e rd r params_id g =
     (if \<not> verifyAuth P (t_verify rd) r e then (errorResponse ''Unauthorized'' 401 e, g)
      else
        catch_500 P e ''Failed to delete profile: ''
          (if params_id = ''all''
           then (Inr (errorResponse (''Cannot delete the default '' @ quoted ''All Restaurants'' @ '' profile'') 400 e), g)
           else fetch_change_update (delete_profile P e params_id) g))"

section \<open>The endpoints together\<close>


record world =
  rateLimitStore :: rate_store
  gh :: github

text \<open>A request as the test suite sends it, and clock readings that all show the same
  instant.\<close>

definition demo_request :: request where
  "demo_request = \<lparr>authorization = None, cf_connecting_ip = Some ''192.168.1.100'',
                    req_json = Some (JObj [(''password'', JStr ''wrong'')])\<rparr>"

definition demo_reads :: "int \<Rightarrow> reads" where
  "demo_reads t = \<lparr>t_verify = t, t_check = t, t_retry = t, t_iat = t, t_exp = t,
                    session_uuid = ''sid'', randoms = (\<lambda>i. i)\<rparr>"

definition demo_env :: env where
  "demo_env = \<lparr>JWT_SECRET = Some ''secret'', ADMIN_PASSWORD = Some ''hunter2'', ALLOWED_ORIGIN = None\<rparr>"

text \<open>A stand-in runtime for evaluating examples: base64 decoding drops the padding,
  the MAC of a message is the key, a slash and the message without its dots, the JSON
  parser knows a handful of texts, the token library signs two payloads and decodes
  their tokens (\<open>jwt_decode\<close> is the payload part of what the library's \<^verbatim>\<open>decode\<close> returns),
  and the shortest digits of a number are its decimal digits without the zeros at the end.\<close>

definition demo_payload :: "int \<Rightarrow> int \<Rightarrow> json" where
  "demo_payload i x = JObj [(''sessionId'', JStr ''sid''), (''iat'', JNum i), (''exp'', JNum x)]"

definition demo_platform :: platform where
  "demo_platform =
     \<lparr>atob = (\<lambda>s. if CHR ''!'' \<in> set s then None else Some (filter (\<lambda>c. c \<noteq> CHR ''='') s)),
      json_parse = (\<lambda>s. if s = ''{}'' then Some (JObj [])
                         else if s = ''null'' then Some JNull
                         else if s = ''{exp:0}'' then Some (JObj [(''exp'', JNum 0)])
                         else if s = ''{exp:5}'' then Some (JObj [(''exp'', JNum 5)])
                         else if s = ''{exp:9999}'' then Some (JObj [(''exp'', JNum 9999)])
                         else None),
      hmac_sha256 = (\<lambda>k. if k = [] then None else Some (\<lambda>m. k @ ''/'' @ filter (\<lambda>c. c \<noteq> CHR ''.'') m)),
      jwt_sign = (\<lambda>p k. if p = demo_payload 1700000000 1700003600 then Some ''token-a''
                        else if p = demo_payload 1700000000 1700003601 then Some ''token-b''
                        else None),
      jwt_decode = (\<lambda>t. if t = ''token-a'' then Some (demo_payload 1700000000 1700003600)
                        else if t = ''token-b'' then Some (demo_payload 1700000000 1700003601)
                        else None),
      shortest_digits = (\<lambda>x. rev (dropWhile (\<lambda>c. c = CHR ''0'') (rev (string_of_int x)))),
      to_number = (\<lambda>v. None),
      date_iso = (\<lambda>t. string_of_int t),
      engine_message = (\<lambda>e. ''engine error'')\<rparr>"

text \<open>A token the stand-in runtime accepts under the secret of \<open>demo_env\<close>, a request that
  carries it, and a store that answers every call with 200.\<close>

definition demo_token :: string where
  "demo_token = ''h.{}.secret/h{}''"

definition demo_auth_request :: "json option \<Rightarrow> request" where
  "demo_auth_request b =
     \<lparr>authorization = Some (''Bearer '' @ demo_token), cf_connecting_ip = None, req_json = b\<rparr>"

definition demo_github :: "json \<Rightarrow> github" where
  "demo_github doc =
     \<lparr>gh_data = Some doc, gh_sha = 7, gh_fetch_status = 200, gh_put_status = 200,
      gh_put_text = [], gh_log = []\<rparr>"





section \<open>Properties of the rate limiter\<close>


lemma purge_lookup:
  "Mapping.lookup (purge_expired now s) k =
     (case Mapping.lookup s k of None \<Rightarrow> None
      | Some e \<Rightarrow> if Mapping.size s > 10000 \<and> now > resetAt e then None else Some e)"
  by (simp add: purge_expired_def lookup_filter split: option.splits)

lemma check_opens:
  assumes "Mapping.lookup s (client_key r) = None \<or> (\<exists>e. Mapping.lookup s (client_key r) = Some e \<and> now > resetAt e)"
  shows "checkRateLimit r m w now s =
           (\<lparr>allowed = True, remaining = m - 1, result_resetAt = now + w\<rparr>,
            Mapping.update (client_key r) \<lparr>count = 1, resetAt = now + w\<rparr> (purge_expired now s))"
  using assms by (auto simp: checkRateLimit_def Let_def purge_lookup split: option.splits)

lemma check_counts:
  assumes "Mapping.lookup s (client_key r) = Some e" "\<not> now > resetAt e"
  shows "checkRateLimit r m w now s =
           (\<lparr>allowed = (count e + 1 \<le> m),
             remaining = (if count e + 1 \<le> m then m - (count e + 1) else 0),
             result_resetAt = resetAt e\<rparr>,
            Mapping.update (client_key r) (e\<lparr>count := count e + 1\<rparr>) (purge_expired now s))"
  using assms by (auto simp: checkRateLimit_def Let_def purge_lookup split: option.splits)

lemma auth_status_429:
  "status (fst (auth_onRequestPost P e rd r s)) = 429 \<longleftrightarrow> \<not> allowed (fst (checkRateLimit r 5 60000 (t_check rd) s))"
  by (auto simp: auth_onRequestPost_def auth_invalid_request_def auth_json_response_def successResponse_def
      split: prod.splits option.splits sum.splits)

lemma auth_store:
  "snd (auth_onRequestPost P e rd r s) = snd (checkRateLimit r 5 60000 (t_check rd) s)"
  by (auto simp: auth_onRequestPost_def split: prod.splits option.splits sum.splits)

lemma auth_denied:
  "\<not> allowed (fst (checkRateLimit r 5 60000 (t_check rd) s)) \<Longrightarrow>
   fst (auth_onRequestPost P e rd r s) =
     \<lparr>status = 429,
      headers = [(''Content-Type'', JStr ''application/json''),
                 (''Retry-After'', JNum (ceil_div_1000 (result_resetAt (fst (checkRateLimit r 5 60000 (t_check rd) s)) - t_retry rd)))]
                @ getCorsHeaders e,
      body = Some (JObj [(''authenticated'', JBool False),
                         (''error'', JStr ''Too many authentication attempts. Please try again later.''),
                         (''retryAfter'', JStr (date_iso P (result_resetAt (fst (checkRateLimit r 5 60000 (t_check rd) s)))))])\<rparr>"
  by (cases "checkRateLimit r 5 60000 (t_check rd) s") (simp add: auth_onRequestPost_def)

lemma auth_429_header:
  assumes "status (fst (auth_onRequestPost P e rd r s)) = 429"
  shows "(\<exists>n. map_of (headers (fst (auth_onRequestPost P e rd r s))) ''Retry-After'' = Some (JNum n))
   \<and> (\<exists>rest. js_get (the (body (fst (auth_onRequestPost P e rd r s)))) ''error''
            = Inr (JStr (''Too many'' @ rest)))"
proof -
  from assms have d: "\<not> allowed (fst (checkRateLimit r 5 60000 (t_check rd) s))"
    by (simp add: auth_status_429)
  show ?thesis
    unfolding auth_denied[OF d] by (simp add: js_get_def)
qed

lemma checkRateLimit_calls_Cons:
  "checkRateLimit_calls m w ((now, r) # cs) s =
     (fst (checkRateLimit r m w now s) # fst (checkRateLimit_calls m w cs (snd (checkRateLimit r m w now s))),
      snd (checkRateLimit_calls m w cs (snd (checkRateLimit r m w now s))))"
  by (simp split: prod.splits)

lemma auth_calls_Cons:
  "auth_calls P e ((rd, r) # cs) s =
     (fst (auth_onRequestPost P e rd r s) # fst (auth_calls P e cs (snd (auth_onRequestPost P e rd r s))),
      snd (auth_calls P e cs (snd (auth_onRequestPost P e rd r s))))"
  by (simp split: prod.splits)

lemma limiter_calls_within:
  assumes "Mapping.lookup s k = Some e"
    and "\<forall>c\<in>set cs. client_key (snd c) = k \<and> fst c \<le> resetAt e"
  shows "map allowed (fst (checkRateLimit_calls m w cs s)) = map (\<lambda>i. count e + int i + 1 \<le> m) [0..<length cs]
         \<and> Mapping.lookup (snd (checkRateLimit_calls m w cs s)) k = Some (e\<lparr>count := count e + int (length cs)\<rparr>)"
  using assms
proof (induction cs arbitrary: s e)
  case Nil
  then show ?case by simp
next
  case (Cons c cs)
  obtain now r where c: "c = (now, r)" by (cases c)
  from Cons.prems c have k: "client_key r = k" and le: "\<not> now > resetAt e" by auto
  let ?e' = "e\<lparr>count := count e + 1\<rparr>"
  let ?s' = "Mapping.update k ?e' (purge_expired now s)"
  have step: "checkRateLimit r m w now s =
      (\<lparr>allowed = (count e + 1 \<le> m), remaining = (if count e + 1 \<le> m then m - (count e + 1) else 0),
        result_resetAt = resetAt e\<rparr>, ?s')"
    using check_counts[of s r e now m w] Cons.prems(1) k le by simp
  have l': "Mapping.lookup ?s' k = Some ?e'" by simp
  have b': "\<forall>c\<in>set cs. client_key (snd c) = k \<and> fst c \<le> resetAt ?e'"
    using Cons.prems(2) by simp
  note ih = Cons.IH[OF l' b']
  have shift: "map (\<lambda>i. count e + int i + 1 \<le> m) [0..<length (c # cs)]
      = (count e + 1 \<le> m) # map (\<lambda>i. count ?e' + int i + 1 \<le> m) [0..<length cs]"
  proof -
    have "[0..<length (c # cs)] = 0 # map Suc [0..<length cs]"
      by (simp add: upt_conv_Cons map_Suc_upt del: upt_Suc)
    then show ?thesis by (simp add: o_def algebra_simps)
  qed
  obtain rs s'' where rec: "checkRateLimit_calls m w cs ?s' = (rs, s'')"
    by (cases "checkRateLimit_calls m w cs ?s'")
  from ih rec have r1: "map allowed rs = map (\<lambda>i. count ?e' + int i + 1 \<le> m) [0..<length cs]"
    and r2: "Mapping.lookup s'' k = Some (?e'\<lparr>count := count ?e' + int (length cs)\<rparr>)" by simp_all
  have run: "checkRateLimit_calls m w (c # cs) s = (fst (checkRateLimit r m w now s) # rs, s'')"
    by (simp add: c step rec)
  show ?case
    unfolding run shift using r1 r2 by (simp add: step add.assoc)
qed

lemma limiter_calls_fresh:
  assumes "Mapping.lookup s (client_key r) = None \<or> (\<exists>e. Mapping.lookup s (client_key r) = Some e \<and> now > resetAt e)"
    and "\<forall>c\<in>set cs. client_key (snd c) = client_key r \<and> fst c \<le> now + w"
  shows "map allowed (fst (checkRateLimit_calls m w ((now, r) # cs) s)) = True # map (\<lambda>i. int i + 2 \<le> m) [0..<length cs]"
proof -
  let ?e = "\<lparr>count = 1, resetAt = now + w\<rparr>"
  let ?s' = "Mapping.update (client_key r) ?e (purge_expired now s)"
  have l: "Mapping.lookup ?s' (client_key r) = Some ?e" by simp
  have b: "\<forall>c\<in>set cs. client_key (snd c) = client_key r \<and> fst c \<le> resetAt ?e"
    using assms(2) by simp
  from limiter_calls_within[OF l b, of m w]
  have "map allowed (fst (checkRateLimit_calls m w cs ?s')) = map (\<lambda>i. int i + 2 \<le> m) [0..<length cs]"
    by (simp add: algebra_simps)
  then show ?thesis
    by (simp add: checkRateLimit_calls_Cons check_opens[OF assms(1)] del: checkRateLimit_calls.simps)
qed

lemma auth_calls_limiter:
  "map (\<lambda>x. status x = 429) (fst (auth_calls P e cs s))
     = map (\<lambda>x. \<not> allowed x) (fst (checkRateLimit_calls 5 60000 (map (\<lambda>c. (t_check (fst c), snd c)) cs) s))
   \<and> snd (auth_calls P e cs s) = snd (checkRateLimit_calls 5 60000 (map (\<lambda>c. (t_check (fst c), snd c)) cs) s)"
proof (induction cs arbitrary: s)
  case Nil
  then show ?case by simp
next
  case (Cons c cs)
  obtain rd r where c: "c = (rd, r)" by (cases c)
  show ?case
    using Cons.IH[of "snd (checkRateLimit r 5 60000 (t_check rd) s)"]
      auth_status_429[of P e rd r s] auth_store[of P e rd r s]
    by (simp add: c checkRateLimit_calls_Cons auth_calls_Cons
        del: checkRateLimit_calls.simps auth_calls.simps)
qed

lemma auth_calls_429_header:
  "x \<in> set (fst (auth_calls P e cs s)) \<Longrightarrow> status x = 429 \<Longrightarrow>
   (\<exists>n. map_of (headers x) ''Retry-After'' = Some (JNum n))
   \<and> (\<exists>rest. js_get (the (body x)) ''error'' = Inr (JStr (''Too many'' @ rest)))"
proof (induction cs arbitrary: s)
  case Nil
  then show ?case by simp
next
  case (Cons c cs)
  obtain rd r where c: "c = (rd, r)" by (cases c)
  from Cons.prems(1) have "x = fst (auth_onRequestPost P e rd r s)
      \<or> x \<in> set (fst (auth_calls P e cs (snd (auth_onRequestPost P e rd r s))))"
    by (auto simp: c auth_calls_Cons simp del: auth_calls.simps)
  then show ?case
    using auth_429_header[of P e rd r s] Cons.IH Cons.prems(2) by blast
qed

lemma check_step:
  "allowed (fst (checkRateLimit r m w now s))
      = (case Mapping.lookup s (client_key r) of None \<Rightarrow> True
         | Some e \<Rightarrow> now > resetAt e \<or> count e + 1 \<le> m)
   \<and> Mapping.lookup (snd (checkRateLimit r m w now s)) (client_key r)
      = Some (case Mapping.lookup s (client_key r) of None \<Rightarrow> \<lparr>count = 1, resetAt = now + w\<rparr>
         | Some e \<Rightarrow> if now > resetAt e then \<lparr>count = 1, resetAt = now + w\<rparr>
                     else \<lparr>count = count e + 1, resetAt = resetAt e\<rparr>)"
proof (cases "Mapping.lookup s (client_key r)")
  case None
  then show ?thesis by (simp add: check_opens)
next
  case (Some e)
  show ?thesis
  proof (cases "now > resetAt e")
    case True
    then show ?thesis using Some by (simp add: check_opens)
  next
    case False
    then show ?thesis using Some check_counts[of s r e now m w] by (cases e) simp
  qed
qed

lemmas check_allowed = check_step[THEN conjunct1]

text \<open>
  Claim C4. One call of the limiter is allowed exactly when the key has no entry, or the
  clock is strictly past the stored \<open>resetAt\<close>, or the incremented count is at most
  \<open>maxRequests\<close>; the entry it leaves is \<open>(1, now + windowMs)\<close> in the first two cases and
  \<open>(count + 1, resetAt)\<close> otherwise. From a key with no entry, six calls to the
  authentication endpoint (limit 5 per 60000 ms), the last five no later than the first
  call's \<open>resetAt\<close>: the limiter allows the first five and denies the sixth, and the
  sixth response has status 429 and a \<open>Retry-After\<close> header.
\<close>

theorem C4_rate_limit_window:
  "(allowed (fst (checkRateLimit r m w now s))
      = (case Mapping.lookup s (client_key r) of None \<Rightarrow> True
         | Some e \<Rightarrow> now > resetAt e \<or> count e + 1 \<le> m)
   \<and> Mapping.lookup (snd (checkRateLimit r m w now s)) (client_key r)
      = Some (case Mapping.lookup s (client_key r) of None \<Rightarrow> \<lparr>count = 1, resetAt = now + w\<rparr>
         | Some e \<Rightarrow> if now > resetAt e then \<lparr>count = 1, resetAt = now + w\<rparr>
                     else \<lparr>count = count e + 1, resetAt = resetAt e\<rparr>))
   \<and> (Mapping.lookup s (client_key (snd c1)) = None \<and> length cs = 5 \<and>
       (\<forall>c\<in>set cs. client_key (snd c) = client_key (snd c1) \<and> t_check (fst c) \<le> t_check (fst c1) + 60000) \<longrightarrow>
         map allowed (fst (checkRateLimit_calls 5 60000 (map (\<lambda>c. (t_check (fst c), snd c)) (c1 # cs)) s))
           = [True, True, True, True, True, False]
       \<and> map status (fst (auth_calls P e (c1 # cs) s)) ! 5 = 429
       \<and> (\<forall>i<5. map status (fst (auth_calls P e (c1 # cs) s)) ! i \<noteq> 429)
       \<and> (\<exists>n. map_of (headers (fst (auth_calls P e (c1 # cs) s) ! 5)) ''Retry-After'' = Some (JNum n)))"
  (is "?A \<and> ?C")
proof (rule conjI)
  show ?A by (rule check_step)
  show ?C
  proof (intro impI)
    assume h: "Mapping.lookup s (client_key (snd c1)) = None \<and> length cs = 5 \<and>
       (\<forall>c\<in>set cs. client_key (snd c) = client_key (snd c1) \<and> t_check (fst c) \<le> t_check (fst c1) + 60000)"
    let ?ts = "map (\<lambda>c. (t_check (fst c), snd c)) cs"
    let ?rs = "fst (auth_calls P e (c1 # cs) s)"
    have b: "\<forall>c\<in>set ?ts. client_key (snd c) = client_key (snd c1) \<and> fst c \<le> t_check (fst c1) + 60000"
      using h by auto
    have "map allowed (fst (checkRateLimit_calls 5 60000 ((t_check (fst c1), snd c1) # ?ts) s))
        = True # map (\<lambda>i. int i + 2 \<le> 5) [0..<length ?ts]"
      using limiter_calls_fresh[of s "snd c1" "t_check (fst c1)" ?ts 60000 5] h b by blast
    moreover have "[0..<length ?ts] = [0, 1, 2, 3, 4]"
      using h by (simp add: upt_rec)
    ultimately have lim: "map allowed (fst (checkRateLimit_calls 5 60000 (map (\<lambda>c. (t_check (fst c), snd c)) (c1 # cs)) s))
           = [True, True, True, True, True, False]"
      by simp
    let ?L = "fst (checkRateLimit_calls 5 60000 (map (\<lambda>c. (t_check (fst c), snd c)) (c1 # cs)) s)"
    have "map (\<lambda>x. status x = 429) ?rs = map (\<lambda>x. \<not> allowed x) ?L"
      by (rule conjunct1[OF auth_calls_limiter])
    also have "\<dots> = map Not (map allowed ?L)"
      by (simp only: map_map o_def)
    also have "\<dots> = map Not [True, True, True, True, True, False]"
      by (simp only: lim)
    finally have st: "map (\<lambda>x. status x = 429) ?rs = [False, False, False, False, False, True]"
      by simp
    then obtain x0 x1 x2 x3 x4 x5 where rs: "?rs = [x0, x1, x2, x3, x4, x5]"
      by (auto simp: map_eq_Cons_conv)
    have x5: "x5 \<in> set ?rs" "status x5 = 429" using st rs by simp_all
    have hd: "\<exists>n. map_of (headers x5) ''Retry-After'' = Some (JNum n)"
      using auth_calls_429_header[OF x5] by blast
    have nth: "\<forall>i<5. map status ?rs ! i \<noteq> 429"
    proof (intro allI impI)
      fix i :: nat assume "i < 5"
      then consider "i = 0" | "i = 1" | "i = 2" | "i = 3" | "i = 4" by linarith
      then show "map status ?rs ! i \<noteq> 429"
        using st rs by cases simp_all
    qed
    show "map allowed (fst (checkRateLimit_calls 5 60000 (map (\<lambda>c. (t_check (fst c), snd c)) (c1 # cs)) s))
           = [True, True, True, True, True, False]
       \<and> map status ?rs ! 5 = 429
       \<and> (\<forall>i<5. map status ?rs ! i \<noteq> 429)
       \<and> (\<exists>n. map_of (headers (?rs ! 5)) ''Retry-After'' = Some (JNum n))"
      using lim nth hd x5 rs by simp
  qed
qed

theorem C4_rate_limit_window_witness:
  "map allowed (fst (checkRateLimit_calls 5 60000
       (map (\<lambda>c. (t_check (fst c), snd c))
          ((demo_reads 0, demo_request) # map (\<lambda>t. (demo_reads t, demo_request)) [10, 20, 30, 40, 60000]))
       Mapping.empty))
     = [True, True, True, True, True, False]
   \<and> map status (fst (auth_calls demo_platform demo_env
        ((demo_reads 0, demo_request) # map (\<lambda>t. (demo_reads t, demo_request)) [10, 20, 30, 40, 60000])
        Mapping.empty)) ! 5 = 429"
  using C4_rate_limit_window[of demo_request 5 60000 0 Mapping.empty "(demo_reads 0, demo_request)"
      "map (\<lambda>t. (demo_reads t, demo_request)) [10, 20, 30, 40, 60000]" demo_platform demo_env]
  by (simp add: demo_reads_def)

text \<open>
  Claim C10. A denied call finds an unexpired entry, adds one to its count and leaves its
  \<open>resetAt\<close> as it was. So after any number of calls inside the window the key still has
  the \<open>resetAt\<close> it started with, and the first call strictly after it is allowed and
  sets the count back to 1.
\<close>

theorem C10_denied_keeps_resetAt:
  "(\<not> allowed (fst (checkRateLimit r m w now s)) \<longrightarrow>
      (\<exists>e. Mapping.lookup s (client_key r) = Some e \<and> \<not> now > resetAt e \<and> count e + 1 > m \<and>
           Mapping.lookup (snd (checkRateLimit r m w now s)) (client_key r)
             = Some \<lparr>count = count e + 1, resetAt = resetAt e\<rparr>))
   \<and> (Mapping.lookup s (client_key r) = Some e \<and>
        (\<forall>c\<in>set cs. client_key (snd c) = client_key r \<and> fst c \<le> resetAt e) \<and> resetAt e < now' \<longrightarrow>
        Mapping.lookup (snd (checkRateLimit_calls m w cs s)) (client_key r)
          = Some \<lparr>count = count e + int (length cs), resetAt = resetAt e\<rparr>
        \<and> allowed (fst (checkRateLimit r m w now' (snd (checkRateLimit_calls m w cs s))))
        \<and> Mapping.lookup (snd (checkRateLimit r m w now' (snd (checkRateLimit_calls m w cs s)))) (client_key r)
          = Some \<lparr>count = 1, resetAt = now' + w\<rparr>)"
  (is "?A \<and> ?B")
proof (rule conjI; rule impI)
  assume d: "\<not> allowed (fst (checkRateLimit r m w now s))"
  show "\<exists>e. Mapping.lookup s (client_key r) = Some e \<and> \<not> now > resetAt e \<and> count e + 1 > m \<and>
           Mapping.lookup (snd (checkRateLimit r m w now s)) (client_key r)
             = Some \<lparr>count = count e + 1, resetAt = resetAt e\<rparr>"
    using d check_step[of r m w now s]
    by (cases "Mapping.lookup s (client_key r)") (auto split: if_splits)
next
  assume h: "Mapping.lookup s (client_key r) = Some e \<and>
        (\<forall>c\<in>set cs. client_key (snd c) = client_key r \<and> fst c \<le> resetAt e) \<and> resetAt e < now'"
  let ?s' = "snd (checkRateLimit_calls m w cs s)"
  have l: "Mapping.lookup ?s' (client_key r) = Some (e\<lparr>count := count e + int (length cs)\<rparr>)"
    using limiter_calls_within[of s "client_key r" e cs m w] h by blast
  then have l': "Mapping.lookup ?s' (client_key r) = Some \<lparr>count = count e + int (length cs), resetAt = resetAt e\<rparr>"
    by (cases e) simp
  show "Mapping.lookup ?s' (client_key r) = Some \<lparr>count = count e + int (length cs), resetAt = resetAt e\<rparr>
        \<and> allowed (fst (checkRateLimit r m w now' ?s'))
        \<and> Mapping.lookup (snd (checkRateLimit r m w now' ?s')) (client_key r) = Some \<lparr>count = 1, resetAt = now' + w\<rparr>"
    using l' h check_step[of r m w now' ?s'] by simp
qed

theorem C10_denied_keeps_resetAt_witness:
  "Mapping.lookup (snd (checkRateLimit demo_request 5 60000 50
        (Mapping.update ''192.168.1.100'' \<lparr>count = 5, resetAt = 100\<rparr> Mapping.empty))) ''192.168.1.100''
     = Some \<lparr>count = 6, resetAt = 100\<rparr>
   \<and> allowed (fst (checkRateLimit demo_request 5 60000 101
        (snd (checkRateLimit_calls 5 60000 [(60, demo_request), (70, demo_request)]
           (Mapping.update ''192.168.1.100'' \<lparr>count = 5, resetAt = 100\<rparr> Mapping.empty)))))"
  using C10_denied_keeps_resetAt[of demo_request 5 60000 50
      "Mapping.update ''192.168.1.100'' \<lparr>count = 5, resetAt = 100\<rparr> Mapping.empty"
      "\<lparr>count = 5, resetAt = 100\<rparr>" "[(60, demo_request), (70, demo_request)]" 101]
  by (simp add: demo_request_def client_key_def check_allowed)

section \<open>Properties of the validation\<close>

lemma js_trim_empty: "js_trim s = [] \<longleftrightarrow> (\<forall>c\<in>set s. is_space c)"
proof
  assume "js_trim s = []"
  then have "dropWhile is_space (rev (dropWhile is_space s)) = []"
    by (simp add: js_trim_def)
  then have all: "\<forall>c\<in>set (dropWhile is_space s). is_space c"
    by (simp add: dropWhile_eq_Nil_conv)
  have "dropWhile is_space s = []"
  proof (rule ccontr)
    assume ne: "dropWhile is_space s \<noteq> []"
    then have "\<not> is_space (hd (dropWhile is_space s))" by (rule hd_dropWhile)
    moreover have "hd (dropWhile is_space s) \<in> set (dropWhile is_space s)" using ne by simp
    ultimately show False using all by blast
  qed
  then show "\<forall>c\<in>set s. is_space c" by (simp add: dropWhile_eq_Nil_conv)
next
  assume "\<forall>c\<in>set s. is_space c"
  then have d: "dropWhile is_space s = []" by (simp add: dropWhile_eq_Nil_conv)
  show "js_trim s = []" unfolding js_trim_def d by simp
qed

lemma is_space_iff:
  "is_space c \<longleftrightarrow> c \<in> {CHR 0x20, CHR 0x09, CHR 0x0A, CHR 0x0B, CHR 0x0C, CHR 0x0D, CHR 0xA0}"
  by (simp add: is_space_def)

lemma blank_iff:
  "js_trim s = [] \<longleftrightarrow>
     set s \<subseteq> {CHR 0x20, CHR 0x09, CHR 0x0A, CHR 0x0B, CHR 0x0C, CHR 0x0D, CHR 0xA0}"
  unfolding js_trim_empty is_space_iff by (rule subset_eq[symmetric])

lemma name_missing_string:
  "name_missing (JStr s) =
     Inr (set s \<subseteq> {CHR 0x20, CHR 0x09, CHR 0x0A, CHR 0x0B, CHR 0x0C, CHR 0x0D, CHR 0xA0})"
proof (cases "s = []")
  case True
  then show ?thesis by (simp add: name_missing_def)
next
  case False
  then show ?thesis by (simp add: name_missing_def blank_iff)
qed










section \<open>Properties of token verification\<close>

lemma verify_iff:
  "verify P now token secret \<longleftrightarrow>
     (\<exists>h p sg mac txt pl.
        split_on CHR ''.'' token = [h, p, sg]
      \<and> hmac_sha256 P secret = Some mac
      \<and> base64UrlDecode P sg = Some (mac (h @ ''.'' @ p))
      \<and> base64UrlDecode P p = Some txt
      \<and> json_parse P txt = Some pl
      \<and> \<not> nullish pl
      \<and> \<not> (truthy (field pl ''exp'') \<and> js_less_number P (field pl ''exp'') (now div 1000)))"
proof (cases "\<exists>h p sg. split_on CHR ''.'' token = [h, p, sg]")
  case False
  then have "verify_try P now token secret = Inr False"
    by (auto simp: verify_try_def Let_def split: list.splits)
  with False show ?thesis by (auto simp: verify_def)
next
  case True
  then obtain h p sg where s: "split_on CHR ''.'' token = [h, p, sg]" by blast
  show ?thesis
    by (auto simp: verify_def verify_try_def s Let_def js_get_def
        split: option.splits sum.splits if_splits)
qed

lemma demo_atob_pad4:
  "CHR ''!'' \<notin> set s \<Longrightarrow> atob demo_platform (pad4 s) = Some (filter (\<lambda>c. c \<noteq> CHR ''='') s)"
proof (induction s rule: pad4.induct)
  case (1 str)
  show ?case
  proof (cases "length str mod 4 \<noteq> 0")
    case True
    have "pad4 str = pad4 (str @ ''='')" using True by (subst pad4.simps) simp
    then show ?thesis using 1 True by simp
  next
    case False
    then have "pad4 str = str" by (subst pad4.simps) simp
    then show ?thesis using 1(2) by (simp add: demo_platform_def)
  qed
qed

lemma demo_fields:
  "json_parse demo_platform s =
     (if s = ''{}'' then Some (JObj [])
      else if s = ''null'' then Some JNull
      else if s = ''{exp:0}'' then Some (JObj [(''exp'', JNum 0)])
      else if s = ''{exp:5}'' then Some (JObj [(''exp'', JNum 5)])
      else if s = ''{exp:9999}'' then Some (JObj [(''exp'', JNum 9999)])
      else None)"
  "hmac_sha256 demo_platform k =
     (if k = [] then None else Some (\<lambda>m. k @ ''/'' @ filter (\<lambda>c. c \<noteq> CHR ''.'') m))"
  by (simp_all add: demo_platform_def)

lemma demo_decode:
  "CHR ''!'' \<notin> set s \<Longrightarrow>
   base64UrlDecode demo_platform s
     = Some (filter (\<lambda>c. c \<noteq> CHR ''='') (replace_char CHR ''_'' CHR ''/'' (replace_char CHR ''-'' CHR ''+'' s)))"
  unfolding base64UrlDecode_def
  by (rule demo_atob_pad4) (auto simp: replace_char_def)




text \<open>
  Claim C9. A token of three segments whose signature verifies and whose payload parses to
  a value \<open>pl\<close> with \<open>exp\<close> missing or falsy (\<^verbatim>\<open>undefined\<close>, \<^verbatim>\<open>null\<close>, \<^verbatim>\<open>false\<close>, 0, the
  empty string) is valid at every time, provided \<open>pl\<close> is not \<^verbatim>\<open>null\<close>: reading \<open>exp\<close> of
  \<^verbatim>\<open>null\<close> throws, the throw is caught, and such a token is invalid at every time.
\<close>

theorem C9_falsy_exp_never_expires:
  assumes "split_on CHR ''.'' token = [h, p, sg]"
    and "hmac_sha256 P secret = Some mac"
    and "base64UrlDecode P sg = Some (mac (h @ ''.'' @ p))"
    and "base64UrlDecode P p = Some decoded"
    and "json_parse P decoded = Some pl"
    and "\<not> truthy (field pl ''exp'')"
  shows "(pl \<noteq> JNull \<and> pl \<noteq> JUndefined \<longrightarrow> (\<forall>now. verify P now token secret))
       \<and> (pl = JNull \<or> pl = JUndefined \<longrightarrow> (\<forall>now. \<not> verify P now token secret))"
proof -
  have n: "nullish pl \<longleftrightarrow> pl = JNull \<or> pl = JUndefined"
    by (cases pl) simp_all
  have "verify P now token secret \<longleftrightarrow> \<not> nullish pl" for now
    unfolding verify_iff using assms by auto
  then show ?thesis by (simp add: n)
qed

theorem C9_falsy_exp_never_expires_witness:
  "(\<forall>now. verify demo_platform now ''h.{exp:0}.secret/h{exp:0}'' ''secret'')
   \<and> (\<forall>now. verify demo_platform now ''h.{}.secret/h{}'' ''secret'')
   \<and> (\<forall>now. \<not> verify demo_platform now ''h.null.secret/hnull'' ''secret'')"
  using C9_falsy_exp_never_expires[where token = "''h.{exp:0}.secret/h{exp:0}''" and h = "''h''"
      and p = "''{exp:0}''" and sg = "''secret/h{exp:0}''" and P = demo_platform and secret = "''secret''"
      and mac = "\<lambda>m. ''secret'' @ ''/'' @ filter (\<lambda>c. c \<noteq> CHR ''.'') m" and decoded = "''{exp:0}''"
      and pl = "JObj [(''exp'', JNum 0)]"]
    C9_falsy_exp_never_expires[where token = "''h.{}.secret/h{}''" and h = "''h''"
      and p = "''{}''" and sg = "''secret/h{}''" and P = demo_platform and secret = "''secret''"
      and mac = "\<lambda>m. ''secret'' @ ''/'' @ filter (\<lambda>c. c \<noteq> CHR ''.'') m" and decoded = "''{}''"
      and pl = "JObj []"]
    C9_falsy_exp_never_expires[where token = "''h.null.secret/hnull''" and h = "''h''"
      and p = "''null''" and sg = "''secret/hnull''" and P = demo_platform and secret = "''secret''"
      and mac = "\<lambda>m. ''secret'' @ ''/'' @ filter (\<lambda>c. c \<noteq> CHR ''.'') m" and decoded = "''null''"
      and pl = "JNull"]
  by (simp add: demo_decode demo_fields replace_char_def)

text \<open>Counterexample to C9 as stated: the token \<open>h.null.secret/hnull\<close> has three segments, its
  third segment is the MAC of the first two under the secret, and its payload parses to
  \<^verbatim>\<open>null\<close>, which has no \<open>exp\<close> field; \<open>payload.exp\<close> throws inside the \<open>try\<close>, and the token is
  invalid.\<close>

theorem C9_counterexample:
  "split_on CHR ''.'' ''h.null.secret/hnull'' = [''h'', ''null'', ''secret/hnull'']
   \<and> hmac_sha256 demo_platform ''secret'' \<noteq> None
   \<and> base64UrlDecode demo_platform ''secret/hnull''
       = Some (the (hmac_sha256 demo_platform ''secret'') (''h'' @ ''.'' @ ''null''))
   \<and> base64UrlDecode demo_platform ''null'' = Some ''null''
   \<and> json_parse demo_platform ''null'' = Some JNull
   \<and> field JNull ''exp'' = JUndefined
   \<and> \<not> verify demo_platform 10000 ''h.null.secret/hnull'' ''secret''"
  by (simp add: verify_iff demo_decode demo_fields replace_char_def)
section \<open>Properties of the authentication endpoint\<close>

lemma demo_verifyAuth:
  "verifyAuth demo_platform now (demo_auth_request b) demo_env"
  by (simp add: verifyAuth_def demo_auth_request_def demo_token_def demo_env_def env_string_def
      verify_def verify_try_def Let_def demo_decode demo_fields replace_char_def js_get_def)

lemma auth_success:
  assumes "status (fst (auth_onRequestPost P e rd r s)) = 200"
  shows "\<exists>token. fst (auth_onRequestPost P e rd r s)
            = successResponse (JObj [(''authenticated'', JBool True), (''token'', JStr token)]) e
         \<and> jwt_sign P (auth_payload rd) (env_string (JWT_SECRET e)) = Some token"
  using assms
  by (cases "checkRateLimit r 5 60000 (t_check rd) s")
     (auto simp: auth_onRequestPost_def auth_invalid_request_def auth_json_response_def successResponse_def
       split: option.splits sum.splits if_splits)

lemma auth_status_200:
  "status (fst (auth_onRequestPost P e rd r s)) = 200 \<longleftrightarrow>
     allowed (fst (checkRateLimit r 5 60000 (t_check rd) s))
     \<and> (\<exists>b. req_json r = Some b \<and> \<not> nullish b
            \<and> truthy (env_value (JWT_SECRET e))
            \<and> strict_eq (field b ''password'') (env_value (ADMIN_PASSWORD e)))
     \<and> jwt_sign P (auth_payload rd) (env_string (JWT_SECRET e)) \<noteq> None"
  by (cases "checkRateLimit r 5 60000 (t_check rd) s")
     (auto simp: auth_onRequestPost_def auth_invalid_request_def auth_json_response_def successResponse_def
       js_get_def split: option.splits sum.splits if_splits)

text \<open>
  Claim C5. The authentication handler answers 200 exactly when the rate limiter allows the
  request, the body is a JSON value other than \<^verbatim>\<open>null\<close> whose \<open>password\<close> is strictly equal to
  the configured one, the signing secret is set, and the token library signs. It then answers
  \<open>authenticated: true\<close> with the token the library made from the payload
  \<open>{sessionId, iat, exp}\<close>. The handler reads the clock twice: \<open>iat\<close> is the first reading in
  whole seconds, \<open>exp\<close> is the second reading in whole seconds plus 3600. When the library
  decodes that token to the payload it signed, the decoded payload has these two fields;
  \<open>exp = iat + 3600\<close> holds exactly when both readings fall in the same second, and
  \<open>exp > iat\<close>, indeed \<open>exp \<ge> iat + 3600\<close>, holds when the clock did not go back between them.
\<close>

theorem C5_token_lifetime:
  "(status (fst (auth_onRequestPost P e rd r s)) = 200 \<longleftrightarrow>
       allowed (fst (checkRateLimit r 5 60000 (t_check rd) s))
     \<and> (\<exists>b. req_json r = Some b \<and> \<not> nullish b
            \<and> truthy (env_value (JWT_SECRET e))
            \<and> strict_eq (field b ''password'') (env_value (ADMIN_PASSWORD e)))
     \<and> jwt_sign P (auth_payload rd) (env_string (JWT_SECRET e)) \<noteq> None)
   \<and> (status (fst (auth_onRequestPost P e rd r s)) = 200
       \<and> (\<forall>t. jwt_sign P (auth_payload rd) (env_string (JWT_SECRET e)) = Some t
                \<longrightarrow> jwt_decode P t = Some (auth_payload rd))
       \<longrightarrow> (\<exists>token pl iat exp.
              body (fst (auth_onRequestPost P e rd r s))
                = Some (JObj [(''authenticated'', JBool True), (''token'', JStr token)])
            \<and> jwt_sign P (auth_payload rd) (env_string (JWT_SECRET e)) = Some token
            \<and> jwt_decode P token = Some pl
            \<and> field pl ''iat'' = JNum iat
            \<and> field pl ''exp'' = JNum exp
            \<and> iat = t_iat rd div 1000
            \<and> exp = t_exp rd div 1000 + 3600
            \<and> (exp = iat + 3600 \<longleftrightarrow> t_exp rd div 1000 = t_iat rd div 1000)
            \<and> (t_iat rd \<le> t_exp rd \<longrightarrow> exp > iat \<and> exp \<ge> iat + 3600)))"
  (is "?A \<and> ?B")
proof (rule conjI)
  show ?A by (rule auth_status_200)
  show ?B
  proof (rule impI)
    assume a: "status (fst (auth_onRequestPost P e rd r s)) = 200
       \<and> (\<forall>t. jwt_sign P (auth_payload rd) (env_string (JWT_SECRET e)) = Some t
                \<longrightarrow> jwt_decode P t = Some (auth_payload rd))"
    then have ok: "status (fst (auth_onRequestPost P e rd r s)) = 200" by (rule conjunct1)
    from auth_success[OF ok] obtain token where
      t: "fst (auth_onRequestPost P e rd r s)
              = successResponse (JObj [(''authenticated'', JBool True), (''token'', JStr token)]) e"
      and sg: "jwt_sign P (auth_payload rd) (env_string (JWT_SECRET e)) = Some token"
      by blast
    from a sg have dec: "jwt_decode P token = Some (auth_payload rd)" by blast
    have b: "body (fst (auth_onRequestPost P e rd r s))
                = Some (JObj [(''authenticated'', JBool True), (''token'', JStr token)])"
      unfolding t by (simp add: successResponse_def)
    have i: "field (auth_payload rd) ''iat'' = JNum (t_iat rd div 1000)"
      and x: "field (auth_payload rd) ''exp'' = JNum (t_exp rd div 1000 + 3600)"
      by (simp_all add: auth_payload_def)
    have m: "t_iat rd \<le> t_exp rd \<longrightarrow> t_iat rd div 1000 \<le> t_exp rd div 1000"
      by (simp add: zdiv_mono1)
    have ar: "(t_exp rd div 1000 + 3600 = t_iat rd div 1000 + 3600 \<longleftrightarrow> t_exp rd div 1000 = t_iat rd div 1000)
          \<and> (t_iat rd \<le> t_exp rd \<longrightarrow> t_exp rd div 1000 + 3600 > t_iat rd div 1000
                 \<and> t_exp rd div 1000 + 3600 \<ge> t_iat rd div 1000 + 3600)"
      using m by linarith
    show "\<exists>token pl iat exp.
              body (fst (auth_onRequestPost P e rd r s))
                = Some (JObj [(''authenticated'', JBool True), (''token'', JStr token)])
            \<and> jwt_sign P (auth_payload rd) (env_string (JWT_SECRET e)) = Some token
            \<and> jwt_decode P token = Some pl
            \<and> field pl ''iat'' = JNum iat
            \<and> field pl ''exp'' = JNum exp
            \<and> iat = t_iat rd div 1000
            \<and> exp = t_exp rd div 1000 + 3600
            \<and> (exp = iat + 3600 \<longleftrightarrow> t_exp rd div 1000 = t_iat rd div 1000)
            \<and> (t_iat rd \<le> t_exp rd \<longrightarrow> exp > iat \<and> exp \<ge> iat + 3600)"
      apply (rule exI[of _ token])
      apply (rule exI[of _ "auth_payload rd"])
      apply (rule exI[of _ "t_iat rd div 1000"])
      apply (rule exI[of _ "t_exp rd div 1000 + 3600"])
      using b sg dec i x ar apply blast
      done
  qed
qed

lemma demo_auth_payload:
  "auth_payload (demo_reads t) = demo_payload (t div 1000) (t div 1000 + 3600)"
  "auth_payload ((demo_reads t)\<lparr>t_exp := t'\<rparr>) = demo_payload (t div 1000) (t' div 1000 + 3600)"
  by (simp_all add: auth_payload_def demo_reads_def demo_payload_def)

lemma demo_sign:
  "jwt_sign demo_platform p k =
     (if p = demo_payload 1700000000 1700003600 then Some ''token-a''
      else if p = demo_payload 1700000000 1700003601 then Some ''token-b''
      else None)"
  "jwt_decode demo_platform t =
     (if t = ''token-a'' then Some (demo_payload 1700000000 1700003600)
      else if t = ''token-b'' then Some (demo_payload 1700000000 1700003601)
      else None)"
  by (simp_all add: demo_platform_def)

lemma demo_rate_allowed:
  "allowed (fst (checkRateLimit r 5 60000 t Mapping.empty))"
  by (simp add: checkRateLimit_def purge_expired_def Let_def)

text \<open>Witness for C5: the right password, both clock readings at 1700000000999 ms.\<close>

theorem C5_token_lifetime_witness:
  "status (fst (auth_onRequestPost demo_platform demo_env (demo_reads 1700000000999)
                  (demo_request\<lparr>req_json := Some (JObj [(''password'', JStr ''hunter2'')])\<rparr>) Mapping.empty)) = 200
   \<and> (\<exists>pl. body (fst (auth_onRequestPost demo_platform demo_env (demo_reads 1700000000999)
                  (demo_request\<lparr>req_json := Some (JObj [(''password'', JStr ''hunter2'')])\<rparr>) Mapping.empty))
            = Some (JObj [(''authenticated'', JBool True), (''token'', JStr ''token-a'')])
          \<and> jwt_decode demo_platform ''token-a'' = Some pl
          \<and> field pl ''iat'' = JNum 1700000000
          \<and> field pl ''exp'' = JNum 1700003600)"
  using C5_token_lifetime[where P = demo_platform and e = demo_env and rd = "demo_reads 1700000000999"
      and r = "demo_request\<lparr>req_json := Some (JObj [(''password'', JStr ''hunter2'')])\<rparr>"
      and s = Mapping.empty]
  by (simp add: demo_auth_payload demo_sign demo_rate_allowed demo_env_def env_value_def env_string_def
      demo_request_def) (simp add: demo_payload_def)

text \<open>Counterexample to C5 as stated: the handler calls \<open>Date.now()\<close> once for \<open>iat\<close> and once
  more for \<open>exp\<close>. With the right password, the first reading at 1700000000999 ms and the
  second one millisecond later, it answers 200 with a token whose decoded payload has
  \<open>iat = 1700000000\<close> and \<open>exp = 1700003601\<close>, which is not \<open>iat + 3600\<close>.\<close>

theorem C5_counterexample:
  "status (fst (auth_onRequestPost demo_platform demo_env
             ((demo_reads 1700000000999)\<lparr>t_exp := 1700000001000\<rparr>)
             (demo_request\<lparr>req_json := Some (JObj [(''password'', JStr ''hunter2'')])\<rparr>) Mapping.empty)) = 200
   \<and> body (fst (auth_onRequestPost demo_platform demo_env
             ((demo_reads 1700000000999)\<lparr>t_exp := 1700000001000\<rparr>)
             (demo_request\<lparr>req_json := Some (JObj [(''password'', JStr ''hunter2'')])\<rparr>) Mapping.empty))
       = Some (JObj [(''authenticated'', JBool True), (''token'', JStr ''token-b'')])
   \<and> jwt_sign demo_platform (auth_payload ((demo_reads 1700000000999)\<lparr>t_exp := 1700000001000\<rparr>)) ''secret''
       = Some ''token-b''
   \<and> jwt_decode demo_platform ''token-b''
       = Some (JObj [(''sessionId'', JStr ''sid''), (''iat'', JNum 1700000000), (''exp'', JNum 1700003601)])
   \<and> (1700003601 :: int) \<noteq> 1700000000 + 3600"
  by (simp add: auth_onRequestPost_def checkRateLimit_def purge_expired_def Let_def
      demo_request_def demo_env_def env_value_def env_string_def js_get_def
      successResponse_def demo_auth_payload demo_sign client_key_def)
     (simp add: demo_payload_def demo_reads_def)
section \<open>Requests that are turned away before the store\<close>

lemma catch_500_Inr: "catch_500 P e prefix (Inr resp, g) = (resp, g)"
  by (simp add: catch_500_def)

lemma status_errorResponse: "status (errorResponse m st e) = st"
  by (simp add: errorResponse_def)

lemma field_not_nullish: "field b k = JStr s \<Longrightarrow> js_get b k = Inr (JStr s)"
  by (cases b) (simp_all add: js_get_def)

lemma delete_all_rejected:
  "profiles_id_onRequestDelete P e rd r ''all'' g =
     (if verifyAuth P (t_verify rd) r e
      then errorResponse (''Cannot delete the default '' @ quoted ''All Restaurants'' @ '' profile'') 400 e
      else errorResponse ''Unauthorized'' 401 e, g)"
  by (simp add: profiles_id_onRequestDelete_def catch_500_Inr)

lemma put_profile_rejected:
  assumes "req_json r = Some b" "js_get b ''id'' = Inr i"
    "\<not> truthy i \<or> \<not> truthy (field b ''name'') \<or> i = JStr ''all''"
  shows "snd (profiles_onRequestPut P e rd r g) = g"
    and "verifyAuth P (t_verify rd) r e \<Longrightarrow> status (fst (profiles_onRequestPut P e rd r g)) = 400"
  using assms
  by (auto simp: profiles_onRequestPut_def catch_500_Inr status_errorResponse)

lemma post_profile_rejected:
  assumes "req_json r = Some b" "js_get b ''id'' = Inr i"
    "\<not> truthy i \<or> \<not> truthy (field b ''name'') \<or> \<not> validateProfileId P i \<or> i \<in> set reservedIds"
  shows "snd (profiles_onRequestPost P e rd r g) = g"
    and "verifyAuth P (t_verify rd) r e \<Longrightarrow> status (fst (profiles_onRequestPost P e rd r g)) = 400"
  using assms
  by (auto simp: profiles_onRequestPost_def catch_500_Inr status_errorResponse)






text \<open>
  Claim C6. For an authenticated request, whatever its body: deleting the profile
  \<open>all\<close> is answered 400; a PUT or a POST whose body has the id \<open>all\<close> is answered 400
  (for a missing name, or for the reserved id). In all three the store is left exactly
  as it was: no read, no write.
\<close>

theorem C6_all_profile_protected:
  "verifyAuth P (t_verify rd) r e \<longrightarrow>
     (status (fst (profiles_id_onRequestDelete P e rd r ''all'' g)) = 400
      \<and> snd (profiles_id_onRequestDelete P e rd r ''all'' g) = g)
   \<and> (\<forall>b. req_json r = Some b \<and> field b ''id'' = JStr ''all'' \<longrightarrow>
          status (fst (profiles_onRequestPut P e rd r g)) = 400
        \<and> snd (profiles_onRequestPut P e rd r g) = g
        \<and> status (fst (profiles_onRequestPost P e rd r g)) = 400
        \<and> snd (profiles_onRequestPost P e rd r g) = g)"
proof (intro impI conjI allI)
  assume a: "verifyAuth P (t_verify rd) r e"
  show "status (fst (profiles_id_onRequestDelete P e rd r ''all'' g)) = 400"
    using a by (simp add: delete_all_rejected status_errorResponse)
  show "snd (profiles_id_onRequestDelete P e rd r ''all'' g) = g"
    by (simp add: delete_all_rejected)
next
  fix b
  assume a: "verifyAuth P (t_verify rd) r e"
    and b: "req_json r = Some b \<and> field b ''id'' = JStr ''all''"
  then have i: "js_get b ''id'' = Inr (JStr ''all'')" by (simp add: field_not_nullish)
  have put: "\<not> truthy (JStr ''all'') \<or> \<not> truthy (field b ''name'') \<or> JStr ''all'' = JStr ''all''"
    by simp
  have post: "\<not> truthy (JStr ''all'') \<or> \<not> truthy (field b ''name'') \<or> \<not> validateProfileId P (JStr ''all'')
      \<or> JStr ''all'' \<in> set reservedIds"
    by (simp add: reservedIds_def)
  show "status (fst (profiles_onRequestPut P e rd r g)) = 400"
    using put_profile_rejected(2)[OF _ i put a] b by simp
  show "snd (profiles_onRequestPut P e rd r g) = g"
    using put_profile_rejected(1)[OF _ i put] b by simp
  show "status (fst (profiles_onRequestPost P e rd r g)) = 400"
    using post_profile_rejected(2)[OF _ i post a] b by simp
  show "snd (profiles_onRequestPost P e rd r g) = g"
    using post_profile_rejected(1)[OF _ i post] b by simp
qed

theorem C6_all_profile_protected_witness:
  "status (fst (profiles_id_onRequestDelete demo_platform demo_env (demo_reads 0)
       (demo_auth_request (Some (JObj [(''id'', JStr ''all''), (''name'', JStr ''Everything'')]))) ''all''
       (demo_github (JObj [])))) = 400
   \<and> status (fst (profiles_onRequestPut demo_platform demo_env (demo_reads 0)
       (demo_auth_request (Some (JObj [(''id'', JStr ''all''), (''name'', JStr ''Everything'')])))
       (demo_github (JObj [])))) = 400
   \<and> snd (profiles_onRequestPost demo_platform demo_env (demo_reads 0)
       (demo_auth_request (Some (JObj [(''id'', JStr ''all''), (''name'', JStr ''Everything'')])))
       (demo_github (JObj []))) = demo_github (JObj [])"
  using C6_all_profile_protected[of demo_platform "demo_reads 0"
      "demo_auth_request (Some (JObj [(''id'', JStr ''all''), (''name'', JStr ''Everything'')]))"
      demo_env "demo_github (JObj [])"]
    demo_verifyAuth[of "t_verify (demo_reads 0)" "Some (JObj [(''id'', JStr ''all''), (''name'', JStr ''Everything'')])"]
  by (simp add: demo_auth_request_def)






lemma demo_1e21: "js_String demo_platform (JNum 1000000000000000000000) = ''1e+21''"
proof -
  have l: "length (string_of_nat 1000000000000000000000) = 22"
    by (simp add: string_of_nat.simps)
  have s: "shortest_digits demo_platform 1000000000000000000000 = ''1''"
    by (simp add: demo_platform_def string_of_int_def string_of_nat.simps)
  have e: "string_of_nat 21 = ''21''"
    by (simp add: string_of_nat.simps)
  show ?thesis by (simp add: number_string_def Let_def l s e)
qed





lemma fetch_demo:
  "fetchFromGitHub (demo_github doc) = (Inr (doc, 7), (demo_github doc)\<lparr>gh_log := [Fetch]\<rparr>)"
  by (simp add: fetchFromGitHub_def demo_github_def response_ok_def Let_def)

lemma update_demo:
  "updateGitHub content 7 message ((demo_github doc)\<lparr>gh_log := [Fetch]\<rparr>)
     = (Inr (), (demo_github content)\<lparr>gh_sha := 8, gh_log := [Fetch, Put content 7 message]\<rparr>)"
  by (simp add: updateGitHub_def demo_github_def response_ok_def Let_def)

lemma valid_demo_restaurant:
  "validateRestaurantData P
     (JObj [(''id'', i), (''name'', JStr ''New''), (''foodTypes'', JArr [JStr ''Thai'']),
            (''serviceTypes'', JArr [JStr ''takeout''])])
     = Inr \<lparr>valid = True, errors = []\<rparr>"
  by (simp add: validateRestaurantData_def js_get_def name_missing_string Let_def validateServiceTypes_def
      validServiceTypes_def)

text \<open>
  Claim C1, at a stored restaurant with the legacy id \<open>1\<close> (a number) and an update whose
  id is the string \<open>"1"\<close>: both ids are the same as strings, the update handler compares
  them with \<^verbatim>\<open>===\<close>, finds nothing and answers 404 after the fetch, writing nothing; the
  delete handler, which compares \<^verbatim>\<open>String(r.id)\<close> with \<^verbatim>\<open>String(id)\<close>, finds the same
  record under the path id \<open>1\<close> and removes it.
\<close>

theorem C1_update_compares_ids_strictly:
  "js_String demo_platform (JNum 1) = js_String demo_platform (JStr ''1'')
   \<and> restaurants_onRequestPut demo_platform demo_env (demo_reads 0)
       (demo_auth_request (Some (JObj [(''id'', JStr ''1''), (''name'', JStr ''New''),
            (''foodTypes'', JArr [JStr ''Thai'']), (''serviceTypes'', JArr [JStr ''takeout''])])))
       (demo_github (JObj [(''restaurants'',
            JArr [JObj [(''id'', JNum 1), (''name'', JStr ''Old''),
                        (''foodTypes'', JArr [JStr ''Thai'']), (''serviceTypes'', JArr [JStr ''takeout''])]])]))
     = (errorResponse ''Restaurant not found'' 404 demo_env,
        (demo_github (JObj [(''restaurants'',
            JArr [JObj [(''id'', JNum 1), (''name'', JStr ''Old''),
                        (''foodTypes'', JArr [JStr ''Thai'']), (''serviceTypes'', JArr [JStr ''takeout''])]])]))
          \<lparr>gh_log := [Fetch]\<rparr>)
   \<and> restaurants_id_onRequestDelete demo_platform demo_env (demo_reads 0) (demo_auth_request None) ''1''
       (demo_github (JObj [(''restaurants'',
            JArr [JObj [(''id'', JNum 1), (''name'', JStr ''Old''),
                        (''foodTypes'', JArr [JStr ''Thai'']), (''serviceTypes'', JArr [JStr ''takeout''])]])]))
     = (successResponse
          (JObj [(''success'', JBool True),
                 (''deleted'', JObj [(''id'', JNum 1), (''name'', JStr ''Old''),
                        (''foodTypes'', JArr [JStr ''Thai'']), (''serviceTypes'', JArr [JStr ''takeout''])])])
          demo_env,
        (demo_github (JObj [(''restaurants'', JArr [])]))
          \<lparr>gh_sha := 8,
           gh_log := [Fetch, Put (JObj [(''restaurants'', JArr [])]) 7 ''Delete restaurant: Old'']\<rparr>)"
proof (intro conjI)
  show "js_String demo_platform (JNum 1) = js_String demo_platform (JStr ''1'')"
    by (simp add: number_string_def string_of_int_def string_of_nat.simps)
  show "restaurants_onRequestPut demo_platform demo_env (demo_reads 0)
       (demo_auth_request (Some (JObj [(''id'', JStr ''1''), (''name'', JStr ''New''),
            (''foodTypes'', JArr [JStr ''Thai'']), (''serviceTypes'', JArr [JStr ''takeout''])])))
       (demo_github (JObj [(''restaurants'',
            JArr [JObj [(''id'', JNum 1), (''name'', JStr ''Old''),
                        (''foodTypes'', JArr [JStr ''Thai'']), (''serviceTypes'', JArr [JStr ''takeout''])]])]))
     = (errorResponse ''Restaurant not found'' 404 demo_env,
        (demo_github (JObj [(''restaurants'',
            JArr [JObj [(''id'', JNum 1), (''name'', JStr ''Old''),
                        (''foodTypes'', JArr [JStr ''Thai'']), (''serviceTypes'', JArr [JStr ''takeout''])]])]))
          \<lparr>gh_log := [Fetch]\<rparr>)"
    using demo_verifyAuth[of "t_verify (demo_reads 0)"]
    by (simp add: restaurants_onRequestPut_def valid_demo_restaurant fetch_change_update_def fetch_demo
        update_restaurant_def js_get_def catch_500_def demo_auth_request_def)
  show "restaurants_id_onRequestDelete demo_platform demo_env (demo_reads 0) (demo_auth_request None) ''1''
       (demo_github (JObj [(''restaurants'',
            JArr [JObj [(''id'', JNum 1), (''name'', JStr ''Old''),
                        (''foodTypes'', JArr [JStr ''Thai'']), (''serviceTypes'', JArr [JStr ''takeout''])]])]))
     = (successResponse
          (JObj [(''success'', JBool True),
                 (''deleted'', JObj [(''id'', JNum 1), (''name'', JStr ''Old''),
                        (''foodTypes'', JArr [JStr ''Thai'']), (''serviceTypes'', JArr [JStr ''takeout''])])])
          demo_env,
        (demo_github (JObj [(''restaurants'', JArr [])]))
          \<lparr>gh_sha := 8,
           gh_log := [Fetch, Put (JObj [(''restaurants'', JArr [])]) 7 ''Delete restaurant: Old'']\<rparr>)"
    using demo_verifyAuth[of "t_verify (demo_reads 0)"]
    by (simp add: restaurants_id_onRequestDelete_def fetch_change_update_def fetch_demo update_demo
        delete_restaurant_def js_get_def catch_500_def splice1_def number_string_def string_of_int_def
        string_of_nat.simps)
qed

section \<open>Deleting a profile\<close>















end
